theory Spec2Isabelle
  imports Complex_Main "HOL-Library.Sublist" "HOL-Library.AList" "HOL-Library.Word"
begin

section \<open>Python values of \<^verbatim>\<open>commons/utils/system_utils.py\<close>\<close>

text \<open>
  The module is a set of helpers over the operating system: a local shell, a remote shell
  reached by SSH, and the file system. Each helper is embedded as a function of the answers
  the operating system gives (the captured streams of a process, the exit status of a remote
  command, the state of the file system), so that every \<^verbatim>\<open>raise\<close> and every early
  \<^verbatim>\<open>return\<close> of the source is a branch of the model.

  A byte string (\<^verbatim>\<open>bytes\<close>) and a text string (\<^verbatim>\<open>str\<close>) are both lists of
  \<^typ>\<open>char\<close>. What a command execution hands back is either raw bytes (the local
  shell, or the remote shell read with \<^verbatim>\<open>read\<close>) or a list of trimmed lines (the remote
  shell read with \<^verbatim>\<open>readlines\<close>).
\<close>

type_synonym bytes = string

datatype stream_value = Raw bytes | Lines "string list"

text \<open>
  The exceptions the module raises itself or lets through. \<^verbatim>\<open>raise IOError(x)\<close> keeps
  its argument; an error of an \<^verbatim>\<open>os\<close> primitive keeps its error number and the
  path it was raised for; the two errors of \<^verbatim>\<open>shutil\<close> keep the path.
\<close>

datatype errno = ENOENT | ENOTDIR | EISDIR | ENOTEMPTY | EACCES | EEXIST | EINVAL | ELOOP

datatype py_exception =
    IOError stream_value
  | ValueError string
  | IndexError
  | TypeError
  | ZeroDivisionError
  | OSError errno string
  | SameFileError string
  | SpecialFileError string

text \<open>Truth value of a captured stream: non-empty bytes, non-empty list.\<close>

fun truthy :: "stream_value \<Rightarrow> bool" where
  "truthy (Raw bs) = (bs \<noteq> [])"
| "truthy (Lines ls) = (ls \<noteq> [])"

text \<open>
  Python's \<^verbatim>\<open>sub in s\<close> on two strings (or two byte strings): \<^verbatim>\<open>sub\<close> occurs in
  \<^verbatim>\<open>s\<close> as a contiguous block.
\<close>

fun py_in :: "string \<Rightarrow> string \<Rightarrow> bool" where
  "py_in sub [] = (sub = [])"
| "py_in sub (c # cs) = (prefix sub (c # cs) \<or> py_in sub cs)"

section \<open>Command execution\<close>

subsection \<open>\<^verbatim>\<open>run_local_cmd\<close>\<close>

text \<open>
  \<^verbatim>\<open>Popen(cmd, shell=True, stdout=PIPE, stderr=PIPE).communicate()\<close> is the local shell:
  given the command and the state of the machine it yields the two captured streams and
  the state the command leaves behind. The state is a type parameter here; the file
  utilities below instantiate it with the file system.
\<close>

type_synonym 's shell = "string \<Rightarrow> 's \<Rightarrow> (bytes \<times> bytes) \<times> 's"

definition key_added :: bytes where
  "key_added = ''Number of key(s) added: 1''"

definition unix_not_found :: bytes where
  "unix_not_found = ''command not found''"

definition windows_not_found :: bytes where
  "windows_not_found = ''not recognized as an internal or external command''"

definition run_local_cmd :: "'s shell \<Rightarrow> string \<Rightarrow> 's \<Rightarrow> (py_exception + bytes) \<times> 's" where
  "run_local_cmd popen cmd s =
     (if cmd = [] then (Inl (ValueError (''Missing required parameter: '' @ cmd)), s)
      else
        (case popen cmd s of
          ((output, error), s') \<Rightarrow>
            if py_in key_added output then (Inr output, s')
            else if py_in unix_not_found error \<or> py_in windows_not_found error \<or> error \<noteq> []
              then (Inl (IOError (Raw error)), s')
            else (Inr output, s')))"

subsection \<open>\<^verbatim>\<open>run_remote_cmd\<close>\<close>

text \<open>
  The keyword arguments the function looks at. A key that is absent is \<open>None\<close>.
\<close>

record kwargs =
  read_lines :: "bool option"
  read_nbytes :: "int option"
  timeout_sec :: "int option"

text \<open>
  What the SSH client answers: \<^verbatim>\<open>connect\<close> or \<^verbatim>\<open>exec_command\<close> raises, or the
  command runs and leaves an exit status and the content of its two streams.
\<close>

datatype ssh_outcome =
    Ssh_raises py_exception
  | Ssh_done (exit_status: int) (stdout: bytes) (stderr: bytes)

text \<open>
  The remote host: hostname, username, password, connect timeout, the keyword arguments
  (the source passes them on to \<^verbatim>\<open>connect\<close>) and the command give the outcome.
\<close>

type_synonym remote_host = "string \<Rightarrow> string \<Rightarrow> string \<Rightarrow> int \<Rightarrow> kwargs \<Rightarrow> string \<Rightarrow> ssh_outcome"

text \<open>\<^verbatim>\<open>readlines()\<close>: the stream cut after each newline, the newline kept.\<close>

fun readlines_acc :: "string \<Rightarrow> string \<Rightarrow> string list" where
  "readlines_acc acc [] = (if acc = [] then [] else [rev acc])"
| "readlines_acc acc (c # cs) =
     (if c = CHR 0x0A then rev (c # acc) # readlines_acc [] cs
      else readlines_acc (c # acc) cs)"

definition readlines :: "string \<Rightarrow> string list" where
  "readlines s = readlines_acc [] s"

text \<open>
  \<^verbatim>\<open>str.strip()\<close> removes leading and trailing white space. Of the characters Python
  counts as white space the model has the ASCII ones: tab, line feed, vertical tab, form
  feed, carriage return, the four separators \<^verbatim>\<open>0x1c\<close> to \<^verbatim>\<open>0x1f\<close>, and space.
\<close>

definition is_space :: "char \<Rightarrow> bool" where
  "is_space c = (let n = (of_char c :: nat) in (9 \<le> n \<and> n \<le> 13) \<or> (28 \<le> n \<and> n \<le> 32))"

definition strip :: "string \<Rightarrow> string" where
  "strip s = rev (dropWhile is_space (rev (dropWhile is_space s)))"

definition strip_chars :: "char \<Rightarrow> string \<Rightarrow> string" where
  "strip_chars c s = rev (dropWhile (\<lambda>x. x = c) (rev (dropWhile (\<lambda>x. x = c) s)))"

text \<open>\<^verbatim>\<open>r.strip().strip("\n").strip()\<close>\<close>

definition trim_line :: "string \<Rightarrow> string" where
  "trim_line r = strip (strip_chars (CHR 0x0A) (strip r))"

text \<open>\<^verbatim>\<open>stdout.read(n)\<close>: the whole stream when \<open>n\<close> is negative, else at most \<open>n\<close> bytes.\<close>

definition read_upto :: "int \<Rightarrow> bytes \<Rightarrow> bytes" where
  "read_upto n bs = (if n < 0 then bs else take (nat n) bs)"

definition opt_read_lines :: "kwargs \<Rightarrow> bool" where
  "opt_read_lines kw = (case read_lines kw of Some True \<Rightarrow> True | _ \<Rightarrow> False)"

definition opt_read_nbytes :: "kwargs \<Rightarrow> int" where
  "opt_read_nbytes kw = (case read_nbytes kw of Some n \<Rightarrow> (if n \<noteq> 0 then n else - 1) | None \<Rightarrow> - 1)"

definition opt_timeout_sec :: "kwargs \<Rightarrow> int" where
  "opt_timeout_sec kw = (case timeout_sec kw of Some n \<Rightarrow> (if n \<noteq> 0 then n else 30) | None \<Rightarrow> 30)"

text \<open>
  The two captured streams: trimmed lines when \<^verbatim>\<open>read_lines\<close> is set, else the bytes
  (of the standard output, at most \<^verbatim>\<open>read_nbytes\<close> when that is not negative).
\<close>

definition captured_output :: "kwargs \<Rightarrow> bytes \<Rightarrow> stream_value" where
  "captured_output kw out =
     (if opt_read_lines kw then Lines (map trim_line (readlines out))
      else Raw (read_upto (opt_read_nbytes kw) out))"

definition captured_error :: "kwargs \<Rightarrow> bytes \<Rightarrow> stream_value" where
  "captured_error kw err =
     (if opt_read_lines kw then Lines (map trim_line (readlines err)) else Raw err)"

definition run_remote_cmd ::
    "remote_host \<Rightarrow> string \<Rightarrow> string \<Rightarrow> string \<Rightarrow> string \<Rightarrow> kwargs \<Rightarrow> py_exception + stream_value" where
  "run_remote_cmd ssh cmd hostname username password kw =
     (case ssh hostname username password (opt_timeout_sec kw) kw cmd of
        Ssh_raises e \<Rightarrow> Inl e
      | Ssh_done status out err \<Rightarrow>
          (let output = captured_output kw out;
               error = captured_error kw err
           in if status \<noteq> 0 then (if truthy error then Inl (IOError error) else Inl (IOError output))
              else if truthy error then Inl (IOError error)
              else Inr output))"

subsection \<open>\<^verbatim>\<open>execute_cmd\<close>\<close>

text \<open>
  The dispatcher. The positional arguments of the remote path are the host name, the user
  name and the password; the local path ignores them. A remote command does not touch the
  local state.
\<close>

record 's machine =
  local_shell :: "'s shell"
  remote :: remote_host

definition execute_cmd ::
    "'s machine \<Rightarrow> string \<Rightarrow> bool \<Rightarrow> string \<times> string \<times> string \<Rightarrow> kwargs \<Rightarrow> 's
      \<Rightarrow> (py_exception + stream_value) \<times> 's" where
  "execute_cmd m cmd is_remote remoteargs kw s =
     (if is_remote then
        (case remoteargs of (hostname, username, password) \<Rightarrow>
           (run_remote_cmd (remote m) cmd hostname username password kw, s))
      else
        (case run_local_cmd (local_shell m) cmd s of
           (Inl e, s') \<Rightarrow> (Inl e, s')
         | (Inr output, s') \<Rightarrow> (Inr (Raw output), s')))"

section \<open>Package introspection: \<^verbatim>\<open>is_rpm_installed\<close>\<close>

text \<open>
  The function subscripts what \<^verbatim>\<open>execute_cmd\<close> returned with \<^verbatim>\<open>[1]\<close>. On bytes
  that is the second byte, an integer; on a list of lines it is the second line; on
  anything shorter than two elements it raises \<^verbatim>\<open>IndexError\<close>.
\<close>

datatype item = Item_int nat | Item_str string

definition subscript1 :: "stream_value \<Rightarrow> py_exception + item" where
  "subscript1 v =
     (case v of
        Raw bs \<Rightarrow> (if 2 \<le> length bs then Inr (Item_int (of_char (bs ! 1))) else Inl IndexError)
      | Lines ls \<Rightarrow> (if 2 \<le> length ls then Inr (Item_str (ls ! 1)) else Inl IndexError))"

fun item_truthy :: "item \<Rightarrow> bool" where
  "item_truthy (Item_int n) = (n \<noteq> 0)"
| "item_truthy (Item_str s) = (s \<noteq> [])"

text \<open>
  \<^verbatim>\<open>for rpm in cmd_output[1]\<close>: an integer is not iterable; a string yields its
  characters, each a string of length one.
\<close>

fun item_iter :: "item \<Rightarrow> py_exception + string list" where
  "item_iter (Item_int n) = Inl TypeError"
| "item_iter (Item_str s) = Inr (map (\<lambda>c. [c]) s)"

text \<open>\<^verbatim>\<open>rpm.split("\n")[0]\<close>: what stands before the first line feed.\<close>

definition first_line :: "string \<Rightarrow> string" where
  "first_line rpm = takeWhile (\<lambda>c. c \<noteq> CHR 0x0A) rpm"

text \<open>
  The loop sets the flag at the first element of \<^verbatim>\<open>rpm_list\<close> that occurs in
  \<^verbatim>\<open>expected_rpm\<close> and breaks.
\<close>

fun rpm_loop :: "string list \<Rightarrow> string \<Rightarrow> bool" where
  "rpm_loop [] expected_rpm = False"
| "rpm_loop (rpm # rpm_list) expected_rpm =
     (if py_in rpm expected_rpm then True else rpm_loop rpm_list expected_rpm)"

text \<open>
  \<^verbatim>\<open>LST_RPM_CMD\<close> is a constant of the sibling module \<^verbatim>\<open>commons.commands\<close>, which is
  not part of this file: it is a parameter.
\<close>

definition is_rpm_installed ::
    "'s machine \<Rightarrow> string \<Rightarrow> string \<times> string \<times> string \<Rightarrow> string \<Rightarrow> bool \<Rightarrow> kwargs \<Rightarrow> 's
      \<Rightarrow> (py_exception + bool \<times> string) \<times> 's" where
  "is_rpm_installed m LST_RPM_CMD remoteargs expected_rpm is_remote kw s =
     (case execute_cmd m LST_RPM_CMD is_remote remoteargs kw s of
        (Inl e, s') \<Rightarrow> (Inl e, s')
      | (Inr cmd_output, s') \<Rightarrow>
          (case subscript1 cmd_output of
             Inl e \<Rightarrow> (Inl e, s')
           | Inr x \<Rightarrow>
               if item_truthy x then (Inr (False, ''RPM not found''), s')
               else
                 (case item_iter x of
                    Inl e \<Rightarrow> (Inl e, s')
                  | Inr rpms \<Rightarrow>
                      (Inr (rpm_loop (map first_line rpms) expected_rpm, ''Expected RPM installed''), s'))))"

section \<open>Numbers as text, and binary floating point\<close>

text \<open>\<^verbatim>\<open>str(n)\<close> of an integer: its decimal digits, with a minus sign when negative.\<close>

function digits :: "int \<Rightarrow> string" where
  "digits n = (if n < 10 then [char_of (48 + n)] else digits (n div 10) @ [char_of (48 + n mod 10)])"
  by pat_completeness auto
termination
  by (relation "measure nat") auto

declare digits.simps [simp del]

definition str_int :: "int \<Rightarrow> string" where
  "str_int n = (if n < 0 then CHR ''-'' # digits (- n) else digits n)"

text \<open>
  A Python \<^verbatim>\<open>float\<close> is an IEEE 754 binary64 number. A finite one is a rational; an
  operation computes the exact rational result and rounds it to the nearest number with a
  53-bit significand, ties to the even significand. \<open>ilog2 n\<close> is the position of the
  leading bit of a positive integer, \<open>exponent x\<close> the \<open>e\<close> with \<open>2^e \<le> x < 2^(e+1)\<close>
  of a positive rational. Below \<open>2^(-1022)\<close> the spacing stays \<open>2^(-1074)\<close>. Overflow to
  infinity is not modelled: the numbers below are products and quotients of 64-bit
  counters and stay far inside the range.
\<close>

function ilog2 :: "int \<Rightarrow> int" where
  "ilog2 n = (if n < 2 then 0 else 1 + ilog2 (n div 2))"
  by pat_completeness auto
termination
  by (relation "measure nat") auto

declare ilog2.simps [simp del]

definition round_half_even :: "rat \<Rightarrow> int" where
  "round_half_even x =
     (let f = \<lfloor>x\<rfloor>; d = x - of_int f
      in if d < 1 / 2 then f else if 1 / 2 < d then f + 1 else if even f then f else f + 1)"

definition pow2 :: "int \<Rightarrow> rat" where
  "pow2 e = (if 0 \<le> e then 2 ^ nat e else 1 / 2 ^ nat (- e))"

definition exponent :: "rat \<Rightarrow> int" where
  "exponent x =
     (case quotient_of x of (a, b) \<Rightarrow>
        (let e0 = ilog2 a - ilog2 b
         in if pow2 e0 \<le> x then e0 else e0 - 1))"

definition to_double :: "rat \<Rightarrow> rat" where
  "to_double x =
     (if x = 0 then 0
      else
        (let q = max (exponent \<bar>x\<bar> - 52) (- 1074);
             m = round_half_even (\<bar>x\<bar> / pow2 q)
         in sgn x * of_int m * pow2 q))"

text \<open>
  \<^verbatim>\<open>format(v, ".1f")\<close>: the exact value of the float rounded to one decimal, ties to
  even, written with its sign.
\<close>

definition format_1f :: "rat \<Rightarrow> string" where
  "format_1f v =
     (let n = round_half_even (\<bar>v\<bar> * 10)
      in (if v < 0 then ''-'' else []) @ digits (n div 10) @ ''.'' @ digits (n mod 10))"

section \<open>Disk usage: \<^verbatim>\<open>get_disk_usage\<close>\<close>

text \<open>
  The three fields of \<^verbatim>\<open>os.statvfs\<close> the function reads; each is an
  \<^verbatim>\<open>unsigned long\<close> of the C structure. The call itself can raise.
\<close>

record statvfs_result =
  f_blocks :: "64 word"
  f_frsize :: "64 word"
  f_bfree :: "64 word"

text \<open>
  \<^verbatim>\<open>total\<close> and \<^verbatim>\<open>used\<close> are Python integers (no wrap-around);
  \<^verbatim>\<open>float(used) / total\<close> converts both to floats, divides (division by zero raises)
  and rounds; the product with \<^verbatim>\<open>100\<close> rounds again.
\<close>

definition get_disk_usage ::
    "(string \<Rightarrow> py_exception + statvfs_result) \<Rightarrow> string \<Rightarrow> py_exception + string" where
  "get_disk_usage statvfs path =
     (case statvfs path of
        Inl e \<Rightarrow> Inl e
      | Inr stats \<Rightarrow>
          (let total = uint (f_blocks stats) * uint (f_frsize stats);
               used = (uint (f_blocks stats) - uint (f_bfree stats)) * uint (f_frsize stats)
           in if total = 0 then Inl ZeroDivisionError
              else Inr (format_1f
                     (to_double (to_double (to_double (of_int used) / to_double (of_int total)) * 100)))))"

section \<open>The file system\<close>

text \<open>
  The file system is a table from path names to nodes, kept as an association list: its
  order is the order in which \<^verbatim>\<open>os.listdir\<close> yields the entries. A node is a regular
  file with its bytes, a symbolic link with its target, a directory, or a special file (a
  socket, a pipe or a device, which holds no bytes). The state of the machine is the table,
  the current directory, the paths the operating system refuses to delete (\<open>locked\<close>),
  which is how a deletion fails in this model, and the paths it refuses to write
  (\<open>read_only\<close>): a file there is not opened for writing, and no entry is created in a
  directory there.

  What the model leaves out: a path is looked up as it is spelled (no \<^verbatim>\<open>.\<close> or
  \<^verbatim>\<open>..\<close>, no doubled or trailing slash is resolved, and the empty path is not
  refused); a symbolic link is followed only as the last component of a path; the root
  directory is no entry of the table; and there is no failure for a full disk or for
  missing read permission.
\<close>

datatype node = File bytes | Symlink string | Directory | Special

type_synonym filesystem = "(string \<times> node) list"

record world =
  files :: filesystem
  cwd :: string
  locked :: "string list"
  read_only :: "string list"

subsection \<open>Path names: \<^verbatim>\<open>os.path\<close>\<close>

definition is_abs :: "string \<Rightarrow> bool" where
  "is_abs p = (case p of [] \<Rightarrow> False | c # _ \<Rightarrow> c = CHR ''/'')"

text \<open>A directory name made ready to take a component: ended by one slash unless empty.\<close>

definition slash :: "string \<Rightarrow> string" where
  "slash d = (if d = [] \<or> last d = CHR ''/'' then d else d @ ''/'')"

text \<open>\<^verbatim>\<open>os.path.join(a, b)\<close>\<close>

definition path_join :: "string \<Rightarrow> string \<Rightarrow> string" where
  "path_join a b = (if is_abs b then b else slash a @ b)"

text \<open>\<^verbatim>\<open>os.path.basename(p)\<close>: what follows the last slash.\<close>

definition basename :: "string \<Rightarrow> string" where
  "basename p = rev (takeWhile (\<lambda>c. c \<noteq> CHR ''/'') (rev p))"

text \<open>
  \<^verbatim>\<open>os.path.dirname(p)\<close>: what stands up to the last slash, without its trailing slashes
  unless it consists of slashes only.
\<close>

definition dirname :: "string \<Rightarrow> string" where
  "dirname p =
     (let head = rev (dropWhile (\<lambda>c. c \<noteq> CHR ''/'') (rev p))
      in if head \<noteq> [] \<and> list_ex (\<lambda>c. c \<noteq> CHR ''/'') head
         then rev (dropWhile (\<lambda>c. c = CHR ''/'') (rev head))
         else head)"

text \<open>The name under which the table holds a path: a relative path starts at the current directory.\<close>

definition key :: "world \<Rightarrow> string \<Rightarrow> string" where
  "key w p = path_join (cwd w) p"

subsection \<open>Looking a path up\<close>

text \<open>
  Following the symbolic links at the end of a path, at most 40 of them (the limit of
  Linux: the forty-first link is refused), gives the name the path stands for; a relative
  target starts at the directory of the link.
\<close>

fun final_key :: "nat \<Rightarrow> filesystem \<Rightarrow> string \<Rightarrow> string option" where
  "final_key 0 fs k = None"
| "final_key (Suc n) fs k =
     (case map_of fs k of
        Some (Symlink t) \<Rightarrow> final_key n fs (path_join (dirname k) t)
      | _ \<Rightarrow> Some k)"

definition resolve :: "world \<Rightarrow> string \<Rightarrow> string option" where
  "resolve w p = final_key 41 (files w) (key w p)"

text \<open>\<^verbatim>\<open>os.lstat\<close> looks at the path itself, \<^verbatim>\<open>os.stat\<close> at what it stands for.\<close>

definition lstat :: "world \<Rightarrow> string \<Rightarrow> node option" where
  "lstat w p = map_of (files w) (key w p)"

definition stat :: "world \<Rightarrow> string \<Rightarrow> node option" where
  "stat w p = (case resolve w p of None \<Rightarrow> None | Some k \<Rightarrow> map_of (files w) k)"

definition path_exists :: "world \<Rightarrow> string \<Rightarrow> bool" where
  "path_exists w p = (stat w p \<noteq> None)"


definition isdir :: "world \<Rightarrow> string \<Rightarrow> bool" where
  "isdir w p = (case stat w p of Some Directory \<Rightarrow> True | _ \<Rightarrow> False)"


subsection \<open>Directories\<close>

text \<open>
  \<open>below k q\<close>: the name \<open>q\<close> lies somewhere under the directory \<open>k\<close>.
  \<open>child_name k q\<close>: \<open>q\<close> is an entry of \<open>k\<close> itself, and its name there.
\<close>

definition below :: "string \<Rightarrow> string \<Rightarrow> bool" where
  "below k q = (prefix (slash k) q \<and> q \<noteq> slash k)"




text \<open>
  What stands where a new entry \<open>k\<close> is to be created: the node at the directory part of
  \<open>k\<close>. The root is a directory, and so is the place of a name without a directory part.
\<close>

definition parent_node :: "world \<Rightarrow> string \<Rightarrow> node option" where
  "parent_node w k =
     (if list_all (\<lambda>c. c = CHR ''/'') (dirname k) then Some Directory
      else map_of (files w) (dirname k))"

text \<open>
  Creating the entry \<open>k\<close>: refused with \<^verbatim>\<open>FileNotFoundError\<close> when its directory is
  missing, with \<^verbatim>\<open>NotADirectoryError\<close> when that is no directory, with
  \<^verbatim>\<open>PermissionError\<close> when that directory may not be written.
\<close>

definition create_entry :: "world \<Rightarrow> string \<Rightarrow> string \<Rightarrow> node \<Rightarrow> py_exception + world" where
  "create_entry w p k n =
     (case parent_node w k of
        None \<Rightarrow> Inl (OSError ENOENT p)
      | Some Directory \<Rightarrow>
          if dirname k \<in> set (read_only w) then Inl (OSError EACCES p)
          else Inr (w\<lparr>files := AList.update k n (files w)\<rparr>)
      | Some _ \<Rightarrow> Inl (OSError ENOTDIR p))"

text \<open>\<^verbatim>\<open>os.mkdir(p)\<close>\<close>

definition mkdir :: "world \<Rightarrow> string \<Rightarrow> py_exception + world" where
  "mkdir w p =
     (case lstat w p of
        Some n \<Rightarrow> Inl (OSError EEXIST p)
      | None \<Rightarrow> create_entry w p (key w p) Directory)"

text \<open>\<^verbatim>\<open>os.chdir(p)\<close>\<close>

definition chdir :: "world \<Rightarrow> string \<Rightarrow> py_exception + world" where
  "chdir w p =
     (case resolve w p of
        None \<Rightarrow> Inl (OSError ELOOP p)
      | Some k \<Rightarrow>
          (case map_of (files w) k of
             None \<Rightarrow> Inl (OSError ENOENT p)
           | Some Directory \<Rightarrow> Inr (w\<lparr>cwd := k\<rparr>)
           | Some _ \<Rightarrow> Inl (OSError ENOTDIR p)))"

subsection \<open>Deleting\<close>

text \<open>\<^verbatim>\<open>os.unlink(p)\<close>, which is also \<^verbatim>\<open>os.remove(p)\<close>: it does not follow a link.\<close>

definition unlink :: "world \<Rightarrow> string \<Rightarrow> py_exception + world" where
  "unlink w p =
     (case lstat w p of
        None \<Rightarrow> Inl (OSError ENOENT p)
      | Some Directory \<Rightarrow> Inl (OSError EISDIR p)
      | Some _ \<Rightarrow>
          if key w p \<in> set (locked w) then Inl (OSError EACCES p)
          else Inr (w\<lparr>files := AList.delete (key w p) (files w)\<rparr>))"

text \<open>\<^verbatim>\<open>os.rmdir(p)\<close>: the directory must be empty.\<close>

definition rmdir :: "world \<Rightarrow> string \<Rightarrow> py_exception + world" where
  "rmdir w p =
     (case lstat w p of
        None \<Rightarrow> Inl (OSError ENOENT p)
      | Some Directory \<Rightarrow>
          if list_ex (below (key w p)) (map fst (files w)) then Inl (OSError ENOTEMPTY p)
          else if key w p \<in> set (locked w) then Inl (OSError EACCES p)
          else Inr (w\<lparr>files := AList.delete (key w p) (files w)\<rparr>)
      | Some _ \<Rightarrow> Inl (OSError ENOTDIR p))"











subsection \<open>Opening a file for writing\<close>

text \<open>
  \<^verbatim>\<open>open(p, "w")\<close> and \<^verbatim>\<open>open(p, "wb")\<close>: a regular file is cut to zero bytes, a
  missing one is created empty, a directory raises, a special file is opened as it is. A
  file that may not be written raises \<^verbatim>\<open>PermissionError\<close> and keeps its bytes. The
  result is the name of the file that was opened. (The name that \<open>resolve\<close> gives is
  never that of a link, so the branch of the link is not reached.)
\<close>

definition open_w :: "world \<Rightarrow> string \<Rightarrow> py_exception + string \<times> world" where
  "open_w w p =
     (case resolve w p of
        None \<Rightarrow> Inl (OSError ELOOP p)
      | Some k \<Rightarrow>
          (case map_of (files w) k of
             None \<Rightarrow>
               (case create_entry w p k (File []) of
                  Inl e \<Rightarrow> Inl e
                | Inr w1 \<Rightarrow> Inr (k, w1))
           | Some Directory \<Rightarrow> Inl (OSError EISDIR p)
           | Some (Symlink t) \<Rightarrow> Inl (OSError ELOOP p)
           | Some (File c) \<Rightarrow>
               if k \<in> set (read_only w) then Inl (OSError EACCES p)
               else Inr (k, w\<lparr>files := AList.update k (File []) (files w)\<rparr>)
           | Some Special \<Rightarrow>
               if k \<in> set (read_only w) then Inl (OSError EACCES p)
               else Inr (k, w)))"

section \<open>File system utilities\<close>

subsection \<open>\<^verbatim>\<open>open_empty_file\<close>\<close>

text \<open>The \<^verbatim>\<open>with\<close> block opens the file for writing and closes it; nothing is written.\<close>

definition open_empty_file :: "world \<Rightarrow> string \<Rightarrow> (py_exception + bool) \<times> world" where
  "open_empty_file w fpath =
     (case open_w w fpath of
        Inl e \<Rightarrow> (Inl e, w)
      | Inr (k, w1) \<Rightarrow> (Inr (path_exists w1 fpath), w1))"

subsection \<open>\<^verbatim>\<open>remove_dir\<close>\<close>

definition remove_dir :: "world \<Rightarrow> string \<Rightarrow> (py_exception + bool) \<times> world" where
  "remove_dir w dpath =
     (case rmdir w dpath of
        Inl e \<Rightarrow> (Inl e, w)
      | Inr w1 \<Rightarrow> (Inr (path_exists w1 dpath), w1))"

subsection \<open>\<^verbatim>\<open>cleanup_dir\<close>\<close>



subsection \<open>What a deletion meets\<close>




subsection \<open>Reading, writing and copying files\<close>

text \<open>
  \<^verbatim>\<open>open(p, "rb")\<close> gives the name of the file that was opened. Reading takes the bytes
  the file holds at that moment; a special file yields none. Writing adds bytes to a
  regular file; on a special file they leave no trace.
\<close>

definition open_r :: "world \<Rightarrow> string \<Rightarrow> py_exception + string" where
  "open_r w p =
     (case resolve w p of
        None \<Rightarrow> Inl (OSError ELOOP p)
      | Some k \<Rightarrow>
          (case map_of (files w) k of
             None \<Rightarrow> Inl (OSError ENOENT p)
           | Some Directory \<Rightarrow> Inl (OSError EISDIR p)
           | Some _ \<Rightarrow> Inr k))"

definition content_at :: "world \<Rightarrow> string \<Rightarrow> bytes" where
  "content_at w k = (case map_of (files w) k of Some (File c) \<Rightarrow> c | _ \<Rightarrow> [])"

definition write_at :: "world \<Rightarrow> string \<Rightarrow> bytes \<Rightarrow> world" where
  "write_at w k data =
     (case map_of (files w) k of
        Some (File c) \<Rightarrow> w\<lparr>files := AList.update k (File (c @ data)) (files w)\<rparr>
      | _ \<Rightarrow> w)"

text \<open>
  \<^verbatim>\<open>shutil.copy(src, dst)\<close>: a destination that is a directory stands for the entry of
  that directory named like the source. Copying a file onto itself raises, and so does a
  special file (taken to be a named pipe) at either end. Then the source is opened, the
  destination is opened for writing, and the bytes are copied.
\<close>

definition shutil_copy :: "world \<Rightarrow> string \<Rightarrow> string \<Rightarrow> py_exception + string \<times> world" where
  "shutil_copy w src dst =
     (let dst' = (if isdir w dst then path_join dst (basename src) else dst)
      in if resolve w src = resolve w dst' \<and> path_exists w src then Inl (SameFileError src)
         else if stat w src = Some Special then Inl (SpecialFileError src)
         else if stat w dst' = Some Special then Inl (SpecialFileError dst')
         else
           (case open_r w src of
              Inl e \<Rightarrow> Inl e
            | Inr ks \<Rightarrow>
                (case open_w w dst' of
                   Inl e \<Rightarrow> Inl e
                 | Inr (kd, w1) \<Rightarrow> Inr (dst', write_at w1 kd (content_at w ks)))))"

subsection \<open>\<^verbatim>\<open>backup_or_restore_files\<close>\<close>

text \<open>
  What the function hands back: \<^verbatim>\<open>None\<close>, or a pair of a flag and a payload, which is
  the list of files, the backup path, or the exception that was caught.
\<close>

datatype payload = Backup_list "string list" | Backup_path string | Caught py_exception

text \<open>The two loops; an exception ends a loop and leaves what was copied before.\<close>

fun backup_loop :: "world \<Rightarrow> string \<Rightarrow> string list \<Rightarrow> (py_exception + unit) \<times> world" where
  "backup_loop w backup_path [] = (Inr (), w)"
| "backup_loop w backup_path (f # rest) =
     (case shutil_copy w f backup_path of
        Inl e \<Rightarrow> (Inl e, w)
      | Inr (d, w1) \<Rightarrow> backup_loop w1 backup_path rest)"

fun restore_loop :: "world \<Rightarrow> string list \<Rightarrow> (py_exception + unit) \<times> world" where
  "restore_loop w [] = (Inr (), w)"
| "restore_loop w (f # rest) =
     (case shutil_copy w (basename f) (dirname f) of
        Inl e \<Rightarrow> (Inl e, w)
      | Inr (d, w1) \<Rightarrow> restore_loop w1 rest)"

text \<open>
  \<^verbatim>\<open>except BaseException\<close> catches whatever the body raises and returns
  \<^verbatim>\<open>(False, error)\<close>; a loop that ran through is followed by the \<^verbatim>\<open>return\<close> of
  its branch.
\<close>

definition caught_or ::
    "payload \<Rightarrow> (py_exception + unit) \<times> world \<Rightarrow> (bool \<times> payload) option \<times> world" where
  "caught_or done r =
     (case r of
        (Inl e, w2) \<Rightarrow> (Some (False, Caught e), w2)
      | (Inr u, w2) \<Rightarrow> (Some (True, done), w2))"

text \<open>
  The restore branch has no \<^verbatim>\<open>return\<close> when the backup path does not exist, and there
  is none after the two \<^verbatim>\<open>if\<close> statements: the function then ends and yields
  \<^verbatim>\<open>None\<close>.
\<close>

text \<open>\<^verbatim>\<open>if not os.path.exists(backup_path): os.mkdir(backup_path)\<close>\<close>

definition ensure_dir :: "world \<Rightarrow> string \<Rightarrow> py_exception + world" where
  "ensure_dir w backup_path = (if \<not> path_exists w backup_path then mkdir w backup_path else Inr w)"

definition backup_or_restore_files ::
    "world \<Rightarrow> string \<Rightarrow> string \<Rightarrow> string list \<Rightarrow> (bool \<times> payload) option \<times> world" where
  "backup_or_restore_files w action backup_path backup_list =
     (if action = ''backup'' then
        (case ensure_dir w backup_path of
           Inl e \<Rightarrow> (Some (False, Caught e), w)
         | Inr w1 \<Rightarrow> caught_or (Backup_list backup_list) (backup_loop w1 backup_path backup_list))
      else if action = ''restore'' then
        (if \<not> path_exists w backup_path then (None, w)
         else
           (case chdir w backup_path of
              Inl e \<Rightarrow> (Some (False, Caught e), w)
            | Inr w1 \<Rightarrow> caught_or (Backup_path backup_path) (restore_loop w1 backup_list)))
      else (None, w))"

section \<open>File content utilities\<close>

subsection \<open>\<^verbatim>\<open>remove_file\<close> and \<^verbatim>\<open>create_file\<close>\<close>

text \<open>\<^verbatim>\<open>remove_file\<close> catches what \<^verbatim>\<open>os.remove\<close> raises and returns it in a pair.\<close>

definition remove_file :: "world \<Rightarrow> string \<Rightarrow> (bool \<times> (py_exception + string)) \<times> world" where
  "remove_file w file_path =
     (case unlink w file_path of
        Inl e \<Rightarrow> ((False, Inl e), w)
      | Inr w1 \<Rightarrow> ((True, Inr ''Success''), w1))"

text \<open>
  What \<^verbatim>\<open>split_file\<close> takes from outside this file: the local shell; the command
  template \<^verbatim>\<open>commands.CREATE_FILE\<close> of the sibling module, here the function that fills
  its four slots (device, path, block size, count); the size of the buffer that Python
  gives a file opened for binary writing (\<^verbatim>\<open>io.DEFAULT_BUFFER_SIZE\<close>, or the block size
  of the device); and the numbers \<^verbatim>\<open>random.randint\<close> draws after
  \<^verbatim>\<open>random.seed(1048576)\<close>, by the position of the draw.
\<close>

record runtime =
  shell :: "world shell"
  CREATE_FILE :: "string \<Rightarrow> string \<Rightarrow> string \<Rightarrow> int \<Rightarrow> string"
  buffer_size :: nat
  randint :: "nat \<Rightarrow> int \<Rightarrow> int \<Rightarrow> int"

definition create_file ::
    "runtime \<Rightarrow> world \<Rightarrow> string \<Rightarrow> int \<Rightarrow> string \<Rightarrow> string \<Rightarrow> (py_exception + bytes) \<times> world" where
  "create_file rt w fpath count dev b_size =
     run_local_cmd (shell rt) (CREATE_FILE rt dev fpath b_size count) w"

subsection \<open>\<^verbatim>\<open>split_file\<close>\<close>

record part =
  Output :: string
  Size :: nat

text \<open>The name of a part: \<^verbatim>\<open>"{}/{}_out{}".format(dir_path, os.path.basename(filename), str(ele))\<close>\<close>

definition part_name :: "string \<Rightarrow> nat \<Rightarrow> string" where
  "part_name filename ele = dirname filename @ ''/'' @ basename filename @ ''_out'' @ str_int (int ele)"

text \<open>
  The number of bytes asked for: a draw between a tenth of the size and the size
  (\<^verbatim>\<open>randint\<close> raises on an empty range), or the size divided by the number of parts. The
  parameter \<^verbatim>\<open>size\<close> of the source is \<open>size_mb\<close> here.
\<close>

definition part_bytes :: "runtime \<Rightarrow> int \<Rightarrow> int \<Rightarrow> bool \<Rightarrow> nat \<Rightarrow> py_exception + int" where
  "part_bytes rt size_mb split_count random_part_size ele =
     (if random_part_size then
        (let lo = 1048576 * size_mb div 10; hi = 1048576 * size_mb
         in if hi < lo then Inl (ValueError ''empty range for randrange()'')
            else Inr (randint rt ele lo hi))
      else Inr (1048576 * size_mb div split_count))"

text \<open>
  \<^verbatim>\<open>fin.read(n)\<close> on what is left of the file: \<open>n\<close> bytes at most, all of it for
  \<open>n = -1\<close>; a smaller \<open>n\<close> raises.
\<close>

definition file_read :: "int \<Rightarrow> bytes \<Rightarrow> py_exception + bytes" where
  "file_read n left =
     (if n < - 1 then Inl (ValueError ''read length must be non-negative or -1'')
      else if n = - 1 then Inr left
      else Inr (take (nat n) left))"

text \<open>
  The part is written through a buffered writer. One \<^verbatim>\<open>write\<close> of data that fit in the
  empty buffer leaves them in memory. Longer data are handed to the operating system, which
  takes \<^verbatim>\<open>0x7ffff000\<close> bytes at most in one call (Linux); the writer calls again as long
  as more bytes are left than the buffer holds, and keeps the rest in memory.
  \<open>buffered_tail bufsize n\<close> is the number of bytes, out of \<open>n\<close>, that are in memory
  when \<^verbatim>\<open>write\<close> returns. Closing the file, at the end of the \<^verbatim>\<open>with\<close> block,
  writes out what the buffer holds.
\<close>

definition MAX_RW_COUNT :: nat where
  "MAX_RW_COUNT = 2147479552"

function buffered_tail :: "nat \<Rightarrow> nat \<Rightarrow> nat" where
  "buffered_tail bufsize n =
     (if n \<le> bufsize then n else buffered_tail bufsize (n - min n MAX_RW_COUNT))"
  by pat_completeness auto
termination
  by (relation "measure snd") (auto simp: MAX_RW_COUNT_def)

declare buffered_tail.simps [simp del]

definition flushed_by_write :: "nat \<Rightarrow> world \<Rightarrow> string \<Rightarrow> bytes \<Rightarrow> world" where
  "flushed_by_write bufsize w k data =
     (let t = buffered_tail bufsize (length data)
      in if t = length data then w else write_at w k (take (length data - t) data))"

definition flushed_by_close :: "nat \<Rightarrow> world \<Rightarrow> string \<Rightarrow> bytes \<Rightarrow> world" where
  "flushed_by_close bufsize w k data =
     (let t = buffered_tail bufsize (length data)
      in if t = 0 then w else write_at w k (drop (length data - t) data))"

text \<open>\<^verbatim>\<open>os.stat(p).st_size\<close>: the bytes a regular file holds on disk.\<close>

definition st_size :: "world \<Rightarrow> string \<Rightarrow> py_exception + nat" where
  "st_size w p =
     (case stat w p of
        None \<Rightarrow> Inl (OSError ENOENT p)
      | Some (File c) \<Rightarrow> Inr (length c)
      | Some _ \<Rightarrow> Inr 0)"

text \<open>
  The loop over \<^verbatim>\<open>range(split_count)\<close>. \<open>ks\<close> is the source file that was opened,
  \<open>pos\<close> the position the reader has reached. In the source \<^verbatim>\<open>os.stat(fop)\<close> stands
  inside the \<^verbatim>\<open>with\<close> block of the part, that is, before the part is closed.
\<close>

fun split_loop ::
    "runtime \<Rightarrow> string \<Rightarrow> string \<Rightarrow> int \<Rightarrow> int \<Rightarrow> bool \<Rightarrow> world \<Rightarrow> nat \<Rightarrow> nat list
      \<Rightarrow> (py_exception + part list) \<times> world" where
  "split_loop rt filename ks size_mb split_count random_part_size w pos [] = (Inr [], w)"
| "split_loop rt filename ks size_mb split_count random_part_size w pos (ele # rest) =
     (let fop = part_name filename ele
      in case part_bytes rt size_mb split_count random_part_size ele of
           Inl e \<Rightarrow> (Inl e, w)
         | Inr read_bytes \<Rightarrow>
             (case open_w w fop of
                Inl e \<Rightarrow> (Inl e, w)
              | Inr (kd, w1) \<Rightarrow>
                  (case file_read read_bytes (drop pos (content_at w1 ks)) of
                     Inl e \<Rightarrow> (Inl e, w1)
                   | Inr data \<Rightarrow>
                       (let w2 = flushed_by_write (buffer_size rt) w1 kd data;
                            w3 = flushed_by_close (buffer_size rt) w2 kd data
                        in case st_size w2 fop of
                             Inl e \<Rightarrow> (Inl e, w3)
                           | Inr sz \<Rightarrow>
                               (case split_loop rt filename ks size_mb split_count random_part_size
                                       w3 (pos + length data) rest of
                                  (Inl e, w') \<Rightarrow> (Inl e, w')
                                | (Inr parts, w') \<Rightarrow>
                                    (Inr (\<lparr>Output = fop, Size = sz\<rparr> # parts), w'))))))"

text \<open>
  \<^verbatim>\<open>split_file\<close>: an existing file is removed (what \<^verbatim>\<open>remove_file\<close> returns is not
  looked at), the file is created by the shell command, opened for reading, and split.
\<close>

definition split_file ::
    "runtime \<Rightarrow> world \<Rightarrow> string \<Rightarrow> int \<Rightarrow> int \<Rightarrow> bool \<Rightarrow> (py_exception + part list) \<times> world" where
  "split_file rt w filename size_mb split_count random_part_size =
     (let w1 = (if path_exists w filename then snd (remove_file w filename) else w)
      in case create_file rt w1 filename size_mb ''/dev/zero'' ''1M'' of
           (Inl e, w2) \<Rightarrow> (Inl e, w2)
         | (Inr out, w2) \<Rightarrow>
             (case open_r w2 filename of
                Inl e \<Rightarrow> (Inl e, w2)
              | Inr ks \<Rightarrow>
                  split_loop rt filename ks size_mb split_count random_part_size w2 0
                    [0..<nat split_count]))"

subsection \<open>A machine for the examples of \<^verbatim>\<open>split_file\<close>\<close>

text \<open>
  A machine for \<^verbatim>\<open>split_file\<close>: \<^verbatim>\<open>CREATE_FILE\<close> is a \<^verbatim>\<open>dd\<close> command that reports
  nothing, the shell runs it by creating the file of one mebibyte of zero bytes, and the
  buffer of a file opened for writing has 8192 bytes. The file system holds the directory
  \<^verbatim>\<open>/tmp\<close> only.
\<close>

definition dd_runtime :: runtime where
  "dd_runtime =
     \<lparr>shell = (\<lambda>cmd w.
         if cmd = ''dd if=/dev/zero of=/tmp/data.bin bs=1M count=1 status=none''
         then (([], []),
               w\<lparr>files := AList.update ''/tmp/data.bin'' (File (replicate 1048576 (CHR 0x00))) (files w)\<rparr>)
         else (([], ''sh: command not found''), w)),
      CREATE_FILE = (\<lambda>dev fpath b_size count.
         ''dd if='' @ dev @ '' of='' @ fpath @ '' bs='' @ b_size @ '' count='' @ str_int count
           @ '' status=none''),
      buffer_size = 8192,
      randint = (\<lambda>i lo hi. lo)\<rparr>"

definition tmp_world :: world where
  "tmp_world = \<lparr>files = [(''/tmp'', Directory)], cwd = ''/'', locked = [], read_only = []\<rparr>"

section \<open>Auxiliary notions for stating the properties\<close>

text \<open>A call that passes no keyword argument.\<close>

definition no_kwargs :: kwargs where
  "no_kwargs = \<lparr>read_lines = None, read_nbytes = None, timeout_sec = None\<rparr>"

text \<open>The result of a call is a raised \<^verbatim>\<open>IOError\<close>.\<close>

definition raises_IOError :: "py_exception + 'a \<Rightarrow> bool" where
  "raises_IOError r = (case r of Inl (IOError _) \<Rightarrow> True | _ \<Rightarrow> False)"

text \<open>
  A name at which a file may be created or opened for writing: neither the name nor its
  directory is refused for writing, and its directory exists.
\<close>

definition may_write :: "world \<Rightarrow> string \<Rightarrow> bool" where
  "may_write w k =
     (k \<notin> set (read_only w) \<and> dirname k \<notin> set (read_only w) \<and> parent_node w k = Some Directory)"

section \<open>Properties of command execution\<close>

lemma py_in_sublist: "py_in sub s \<longleftrightarrow> sublist sub s"
  by (induction s) (auto simp: sublist_Cons_right)

lemma py_in_nonempty: "py_in sub s \<Longrightarrow> sub \<noteq> [] \<Longrightarrow> s \<noteq> []"
  by (cases s) auto

subsection \<open>Remote execution\<close>



text \<open>When the command ran, exited with status zero and wrote no error output, its output is returned.\<close>

lemma run_remote_cmd_returns:
  assumes "ssh hostname username password (opt_timeout_sec kw) kw cmd = Ssh_done 0 out err"
    and "\<not> truthy (captured_error kw err)"
  shows "run_remote_cmd ssh cmd hostname username password kw = Inr (captured_output kw out)"
  using assms by (simp add: run_remote_cmd_def Let_def)

subsection \<open>Local execution\<close>

text \<open>
  Claim C3. When a non-empty command has been run and its captured error stream holds the
  Unix or the Windows "command not found" marker, or is not empty at all, then
  \<^verbatim>\<open>run_local_cmd\<close> raises an \<^verbatim>\<open>IOError\<close> carrying the captured error bytes, unless the
  captured standard output holds the key-installation confirmation, in which case the output
  is returned.
\<close>

theorem run_local_cmd_error_stream:
  assumes "cmd \<noteq> []"
    and "popen cmd s = ((output, error), s')"
    and "py_in unix_not_found error \<or> py_in windows_not_found error \<or> error \<noteq> []"
  shows "run_local_cmd popen cmd s =
           (if py_in key_added output then Inr output else Inl (IOError (Raw error)), s')"
  using assms by (auto simp: run_local_cmd_def)

text \<open>A shell that does not know the command \<^verbatim>\<open>frob\<close>.\<close>

theorem run_local_cmd_error_stream_witness:
  "''frob'' \<noteq> []
   \<and> (\<lambda>cmd s. ((''x'', ''sh: frob: command not found''), s)) ''frob'' () = ((''x'', ''sh: frob: command not found''), ())
   \<and> py_in unix_not_found ''sh: frob: command not found''
   \<and> run_local_cmd (\<lambda>cmd s. ((''x'', ''sh: frob: command not found''), s)) ''frob'' ()
        = (Inl (IOError (Raw ''sh: frob: command not found'')), ())"
  using run_local_cmd_error_stream [of "''frob''" "\<lambda>cmd s. ((''x'', ''sh: frob: command not found''), s)" "()"
      "''x''" "''sh: frob: command not found''" "()"]
  by (simp add: key_added_def unix_not_found_def)

text \<open>The two markers add nothing to the test: an error stream that holds one is not empty.\<close>

lemma markers_imply_nonempty:
  "py_in unix_not_found error \<or> py_in windows_not_found error \<Longrightarrow> error \<noteq> []"
  by (auto simp: unix_not_found_def windows_not_found_def dest: py_in_nonempty)

text \<open>
  Claim C4, as amended. Given the empty command string, \<^verbatim>\<open>run_local_cmd\<close> raises a
  \<^verbatim>\<open>ValueError\<close> with the message \<^verbatim>\<open>Missing required parameter: \<close> before any process
  is started: no stream is captured and the state of the machine is unchanged.
\<close>

theorem run_local_cmd_empty:
  "run_local_cmd popen [] s = (Inl (ValueError ''Missing required parameter: ''), s)"
  by (simp add: run_local_cmd_def)

text \<open>
  Claim C4 as stated fails: on the empty command the result is not an \<^verbatim>\<open>IOError\<close>, whatever
  the shell would have written to its error stream.
\<close>

theorem run_local_cmd_empty_not_IOError:
  "\<not> raises_IOError (fst (run_local_cmd (\<lambda>cmd s. (([], ''sh: syntax error''), s)) [] ()))"
  by (simp add: run_local_cmd_def raises_IOError_def)

subsection \<open>RPM presence check\<close>

lemma falsy_item_iter: "\<not> item_truthy x \<Longrightarrow> item_iter x = Inr rpms \<Longrightarrow> rpms = []"
  by (cases x) auto

text \<open>
  Whatever the machine answers, \<^verbatim>\<open>is_rpm_installed\<close> never reports a package as found:
  the loop that sets the flag runs only over a value that tested false, and such a value has
  no elements.
\<close>

lemma is_rpm_installed_never_found:
  "fst (is_rpm_installed m LST_RPM_CMD remoteargs expected_rpm is_remote kw s) \<noteq> Inr (True, msg)"
  by (auto simp: is_rpm_installed_def split: prod.splits sum.splits dest: falsy_item_iter)

text \<open>
  Claim C1, evaluated on the code. A local package listing that prints \<^verbatim>\<open>foo-1.2-rpm\<close>,
  checked for the package \<^verbatim>\<open>foo\<close>, is reported as not found with the message
  \<^verbatim>\<open>RPM not found\<close>; a listing that prints nothing raises \<^verbatim>\<open>IndexError\<close>.
\<close>

theorem is_rpm_installed_listed_package:
  "fst (is_rpm_installed
         \<lparr>local_shell = (\<lambda>cmd s. ((''foo-1.2-rpm\<newline>'', []), s)), remote = (\<lambda>h u p t k c. Ssh_raises TypeError)\<rparr>
         ''rpm -qa'' ([], [], []) ''foo'' False no_kwargs ())
     = Inr (False, ''RPM not found'')
   \<and> fst (is_rpm_installed
         \<lparr>local_shell = (\<lambda>cmd s. (([], []), s)), remote = (\<lambda>h u p t k c. Ssh_raises TypeError)\<rparr>
         ''rpm -qa'' ([], [], []) ''foo'' False no_kwargs ())
     = Inl IndexError"
  by (simp add: is_rpm_installed_def execute_cmd_def run_local_cmd_def subscript1_def key_added_def
      unix_not_found_def windows_not_found_def)

section \<open>Properties of the disk usage\<close>

text \<open>The rounding, checked on known values: \<open>0.1\<close>, two ties above \<open>2^53\<close>, and \<open>0.1 + 0.2\<close>.\<close>

lemma to_double_examples:
  "to_double (1 / 10) = 3602879701896397 / 2 ^ 55"
  "to_double (2 ^ 53 + 1) = 2 ^ 53"
  "to_double (2 ^ 53 + 3) = 2 ^ 53 + 4"
  "to_double (to_double (1 / 10) + to_double (2 / 10)) = 5404319552844596 / 2 ^ 54"
  by code_simp+

lemma format_1f_examples:
  "format_1f (1 / 4) = ''0.2''"
  "format_1f (3 / 4) = ''0.8''"
  "format_1f (- 1 / 100) = ''-0.0''"
  by code_simp+

text \<open>
  Claim C8. For a file system that reports 100 blocks, a fragment size of 1 and 40 free
  blocks, \<^verbatim>\<open>get_disk_usage\<close> returns the string \<^verbatim>\<open>60.0\<close>: the float \<open>60 / 100\<close> is
  rounded to binary64, its product with 100 is rounded again (to exactly 60), and the result
  is formatted to one decimal.
\<close>

theorem get_disk_usage_60:
  "get_disk_usage (\<lambda>p. Inr \<lparr>f_blocks = 100, f_frsize = 1, f_bfree = 40\<rparr>) path = Inr ''60.0''"
  by code_simp

text \<open>A file system of no blocks makes the division raise.\<close>

lemma get_disk_usage_no_blocks:
  "statvfs path = Inr stats \<Longrightarrow> f_blocks stats = 0 \<Longrightarrow> get_disk_usage statvfs path = Inl ZeroDivisionError"
  by (simp add: get_disk_usage_def)

section \<open>Properties of the file system utilities\<close>

subsection \<open>Looking up a path that is no symbolic link\<close>

lemma final_key_no_link:
  "(\<And>t. map_of fs k \<noteq> Some (Symlink t)) \<Longrightarrow> final_key (Suc n) fs k = Some k"
  by (auto split: option.splits node.splits)

lemma resolve_no_link:
  assumes "\<And>t. lstat w p \<noteq> Some (Symlink t)"
  shows "resolve w p = Some (key w p)"
proof -
  have "final_key (Suc 40) (files w) (key w p) = Some (key w p)"
    using assms by (intro final_key_no_link) (simp add: lstat_def)
  then show ?thesis
    by (simp add: resolve_def)
qed

lemma stat_no_link:
  "(\<And>t. lstat w p \<noteq> Some (Symlink t)) \<Longrightarrow> stat w p = lstat w p"
  by (simp add: stat_def resolve_no_link) (simp add: lstat_def)

lemma key_files_update [simp]: "key (w\<lparr>files := fs\<rparr>) p = key w p"
  by (simp add: key_def)

subsection \<open>\<^verbatim>\<open>open_empty_file\<close>\<close>

text \<open>
  Opening for writing where it is refused: under a directory that is missing, under a
  regular file, in a directory that may not be written, and at a directory.
\<close>

lemma open_w_refused:
  "open_w \<lparr>files = [(''/d'', Directory)], cwd = ''/d'', locked = [], read_only = []\<rparr> ''/e/a''
     = Inl (OSError ENOENT ''/e/a'')"
  "open_w \<lparr>files = [(''/d'', Directory), (''/d/f'', File ''x'')], cwd = ''/d'', locked = [], read_only = []\<rparr> ''f/a''
     = Inl (OSError ENOTDIR ''f/a'')"
  "open_w \<lparr>files = [(''/d'', Directory)], cwd = ''/d'', locked = [], read_only = [''/d'']\<rparr> ''a''
     = Inl (OSError EACCES ''a'')"
  "open_w \<lparr>files = [(''/d'', Directory)], cwd = ''/'', locked = [], read_only = []\<rparr> ''d''
     = Inl (OSError EISDIR ''d'')"
  by code_simp+

lemma open_w_file:
  assumes "lstat w p = Some (File c)"
  shows "open_w w p =
           (if key w p \<in> set (read_only w) then Inl (OSError EACCES p)
            else Inr (key w p, w\<lparr>files := AList.update (key w p) (File []) (files w)\<rparr>))"
proof -
  from assms have "resolve w p = Some (key w p)"
    by (simp add: resolve_no_link)
  with assms show ?thesis
    by (simp add: open_w_def lstat_def)
qed

text \<open>
  Claim C9, as the code has it. When \<^verbatim>\<open>open_empty_file\<close> is called on a path at which a
  regular file exists, whatever its content: if the file may be opened for writing, the
  function returns \<^verbatim>\<open>True\<close> and the file is left with zero bytes; if it may not,
  \<^verbatim>\<open>open\<close> raises \<^verbatim>\<open>PermissionError\<close>, nothing is returned and nothing changes.
\<close>

theorem open_empty_file_existing:
  assumes "lstat w fpath = Some (File c)"
  shows "(key w fpath \<notin> set (read_only w) \<longrightarrow>
            fst (open_empty_file w fpath) = Inr True
            \<and> lstat (snd (open_empty_file w fpath)) fpath = Some (File []))
         \<and> (key w fpath \<in> set (read_only w) \<longrightarrow>
            open_empty_file w fpath = (Inl (OSError EACCES fpath), w))"
proof (intro conjI impI)
  let ?w1 = "w\<lparr>files := AList.update (key w fpath) (File []) (files w)\<rparr>"
  assume "key w fpath \<notin> set (read_only w)"
  with open_w_file [OF assms] have o: "open_w w fpath = Inr (key w fpath, ?w1)"
    by simp
  have l1: "lstat ?w1 fpath = Some (File [])"
    by (simp add: lstat_def update_conv')
  then have "stat ?w1 fpath = Some (File [])"
    by (simp add: stat_no_link)
  with o l1 show "fst (open_empty_file w fpath) = Inr True"
    and "lstat (snd (open_empty_file w fpath)) fpath = Some (File [])"
    by (simp_all add: open_empty_file_def path_exists_def)
next
  assume "key w fpath \<in> set (read_only w)"
  with open_w_file [OF assms] have "open_w w fpath = Inl (OSError EACCES fpath)"
    by simp
  then show "open_empty_file w fpath = (Inl (OSError EACCES fpath), w)"
    by (simp add: open_empty_file_def)
qed

text \<open>
  A file of three bytes in the current directory, first writable, then read-only.
\<close>

theorem open_empty_file_existing_witness:
  "lstat \<lparr>files = [(''/d'', Directory), (''/d/a'', File ''abc'')], cwd = ''/d'', locked = [], read_only = []\<rparr> ''a''
     = Some (File ''abc'')
   \<and> key \<lparr>files = [(''/d'', Directory), (''/d/a'', File ''abc'')], cwd = ''/d'', locked = [], read_only = []\<rparr> ''a'' \<notin> set (read_only \<lparr>files = [(''/d'', Directory), (''/d/a'', File ''abc'')], cwd = ''/d'', locked = [], read_only = []\<rparr>)
   \<and> fst (open_empty_file \<lparr>files = [(''/d'', Directory), (''/d/a'', File ''abc'')], cwd = ''/d'', locked = [], read_only = []\<rparr> ''a'')
     = Inr True
   \<and> lstat (snd (open_empty_file \<lparr>files = [(''/d'', Directory), (''/d/a'', File ''abc'')], cwd = ''/d'', locked = [], read_only = []\<rparr> ''a'')) ''a''
     = Some (File [])
   \<and> lstat \<lparr>files = [(''/d'', Directory), (''/d/a'', File ''abc'')], cwd = ''/d'', locked = [], read_only = [''/d/a'']\<rparr> ''a''
     = Some (File ''abc'')
   \<and> key \<lparr>files = [(''/d'', Directory), (''/d/a'', File ''abc'')], cwd = ''/d'', locked = [], read_only = [''/d/a'']\<rparr> ''a'' \<in> set (read_only \<lparr>files = [(''/d'', Directory), (''/d/a'', File ''abc'')], cwd = ''/d'', locked = [], read_only = [''/d/a'']\<rparr>)
   \<and> open_empty_file \<lparr>files = [(''/d'', Directory), (''/d/a'', File ''abc'')], cwd = ''/d'', locked = [], read_only = [''/d/a'']\<rparr> ''a''
     = (Inl (OSError EACCES ''a''), \<lparr>files = [(''/d'', Directory), (''/d/a'', File ''abc'')], cwd = ''/d'', locked = [], read_only = [''/d/a'']\<rparr>)"
  using open_empty_file_existing
    [of "\<lparr>files = [(''/d'', Directory), (''/d/a'', File ''abc'')], cwd = ''/d'', locked = [], read_only = []\<rparr>" "''a''" "''abc''"]
    open_empty_file_existing
    [of "\<lparr>files = [(''/d'', Directory), (''/d/a'', File ''abc'')], cwd = ''/d'', locked = [], read_only = [''/d/a'']\<rparr>" "''a''" "''abc''"]
  by (simp add: lstat_def key_def path_join_def is_abs_def slash_def)

text \<open>
  The claim as it was written, refuted by the code: the file \<^verbatim>\<open>/d/a\<close> exists with three
  bytes and may not be written; the call returns nothing, it raises, and the file keeps its
  three bytes.
\<close>

theorem open_empty_file_read_only_raises:
  "lstat \<lparr>files = [(''/d'', Directory), (''/d/a'', File ''abc'')], cwd = ''/d'', locked = [], read_only = [''/d/a'']\<rparr> ''a''
     = Some (File ''abc'')
   \<and> fst (open_empty_file \<lparr>files = [(''/d'', Directory), (''/d/a'', File ''abc'')], cwd = ''/d'', locked = [], read_only = [''/d/a'']\<rparr> ''a'')
     = Inl (OSError EACCES ''a'')
   \<and> lstat (snd (open_empty_file \<lparr>files = [(''/d'', Directory), (''/d/a'', File ''abc'')], cwd = ''/d'', locked = [], read_only = [''/d/a'']\<rparr> ''a'')) ''a''
     = Some (File ''abc'')"
  by code_simp

text \<open>No other entry of the table changes.\<close>

lemma open_empty_file_others:
  assumes "lstat w fpath = Some (File c)" and "q \<noteq> key w fpath"
  shows "map_of (files (snd (open_empty_file w fpath))) q = map_of (files w) q"
  using assms(2) by (simp add: open_empty_file_def open_w_file [OF assms(1)] update_conv')

subsection \<open>\<^verbatim>\<open>remove_dir\<close>\<close>

lemma rmdir_gone:
  assumes "rmdir w dpath = Inr w1"
  shows "\<not> path_exists w1 dpath"
proof -
  from assms have w1: "w1 = w\<lparr>files := AList.delete (key w dpath) (files w)\<rparr>"
    by (auto simp: rmdir_def split: option.splits node.splits if_splits)
  then have "lstat w1 dpath = None"
    by (simp add: lstat_def delete_conv')
  then show ?thesis
    by (simp add: path_exists_def stat_no_link)
qed

text \<open>
  Claim C7, as amended. \<^verbatim>\<open>remove_dir\<close> either passes on what \<^verbatim>\<open>os.rmdir\<close> raises (the
  path is missing, is no directory, is not empty, or may not be deleted) and returns
  nothing, or, when \<^verbatim>\<open>os.rmdir\<close> succeeded, returns \<^verbatim>\<open>False\<close>, and the directory does
  not exist any more.
\<close>

theorem remove_dir_result:
  "(case rmdir w dpath of
      Inl e \<Rightarrow> remove_dir w dpath = (Inl e, w)
    | Inr w1 \<Rightarrow> remove_dir w dpath = (Inr False, w1) \<and> \<not> path_exists w1 dpath)"
  by (auto simp: remove_dir_def split: sum.splits dest: rmdir_gone)

text \<open>So the function returns \<^verbatim>\<open>True\<close> on no input.\<close>

lemma remove_dir_never_True: "fst (remove_dir w dpath) \<noteq> Inr True"
  by (auto simp: remove_dir_def split: sum.splits dest: rmdir_gone)

text \<open>
  Claim C7 as stated fails on a directory that is not empty: the directory still exists
  after the attempt, and what the function yields is not that truth value but the error of
  \<^verbatim>\<open>os.rmdir\<close>.
\<close>

theorem remove_dir_nonempty_raises:
  "path_exists (snd (remove_dir \<lparr>files = [(''/d'', Directory), (''/d/f'', File ''x'')], cwd = ''/'', locked = [], read_only = []\<rparr> ''/d'')) ''/d''
   \<and> fst (remove_dir \<lparr>files = [(''/d'', Directory), (''/d/f'', File ''x'')], cwd = ''/'', locked = [], read_only = []\<rparr> ''/d'')
       = Inl (OSError ENOTEMPTY ''/d'')"
  by (simp add: remove_dir_def rmdir_def lstat_def key_def path_join_def is_abs_def slash_def below_def
      path_exists_def stat_def resolve_def eval_nat_numeral)

subsection \<open>Names of directory entries\<close>




lemma slash_idem [simp]: "slash (slash d) = slash d"
  by (simp add: slash_def)





subsection \<open>Entries of one directory do not overlap\<close>

lemma sibling_neq: "n1 \<noteq> n2 \<Longrightarrow> P @ n1 \<noteq> P @ n2"
  by simp





subsection \<open>The walk of \<^verbatim>\<open>shutil.rmtree\<close>\<close>



subsection \<open>Removing names from the table\<close>





subsection \<open>\<^verbatim>\<open>cleanup_dir\<close>: one entry\<close>


lemma world_files_same [simp]: "w\<lparr>files := filter (\<lambda>(x, v). x \<notin> {}) (files w)\<rparr> = w"
  by simp




subsection \<open>\<^verbatim>\<open>cleanup_dir\<close>: the loop\<close>





subsection \<open>\<^verbatim>\<open>backup_or_restore_files\<close>\<close>

text \<open>
  Claim C10. \<^verbatim>\<open>backup_or_restore_files\<close> returns \<^verbatim>\<open>None\<close> exactly when the action is
  \<^verbatim>\<open>restore\<close> and the backup path does not exist, or the action is neither \<^verbatim>\<open>backup\<close>
  nor \<^verbatim>\<open>restore\<close>; on every other path it returns a pair.
\<close>

lemma caught_or_pair: "fst (caught_or done r) \<noteq> None"
proof (cases r)
  case (Pair x w2)
  then show ?thesis
    by (cases x) (simp_all add: caught_or_def)
qed

lemma backup_branch: "fst (backup_or_restore_files w ''backup'' backup_path backup_list) \<noteq> None"
proof (cases "ensure_dir w backup_path")
  case (Inl e)
  then show ?thesis
    by (simp add: backup_or_restore_files_def)
next
  case (Inr w1)
  then show ?thesis
    using caught_or_pair by (simp add: backup_or_restore_files_def)
qed

lemma restore_branch:
  "fst (backup_or_restore_files w ''restore'' backup_path backup_list) = None
   \<longleftrightarrow> \<not> path_exists w backup_path"
proof (cases "path_exists w backup_path")
  case False
  then show ?thesis
    by (simp add: backup_or_restore_files_def)
next
  case True
  show ?thesis
  proof (cases "chdir w backup_path")
    case (Inl e)
    with True show ?thesis
      by (simp add: backup_or_restore_files_def)
  next
    case (Inr w1)
    with True show ?thesis
      using caught_or_pair by (simp add: backup_or_restore_files_def)
  qed
qed

lemma other_branch:
  "action \<noteq> ''backup'' \<Longrightarrow> action \<noteq> ''restore''
   \<Longrightarrow> backup_or_restore_files w action backup_path backup_list = (None, w)"
  by (simp add: backup_or_restore_files_def)

theorem backup_or_restore_files_None:
  "fst (backup_or_restore_files w action backup_path backup_list) = None
   \<longleftrightarrow> (action = ''restore'' \<and> \<not> path_exists w backup_path)
       \<or> (action \<noteq> ''backup'' \<and> action \<noteq> ''restore'')"
proof -
  consider "action = ''backup''" | "action = ''restore''" | "action \<noteq> ''backup''" "action \<noteq> ''restore''"
    by blast
  then show ?thesis
  proof cases
    case 1
    with backup_branch [of w backup_path backup_list] show ?thesis by simp
  next
    case 2
    with restore_branch [of w backup_path backup_list] show ?thesis by simp
  next
    case 3
    with other_branch [OF 3, of w backup_path backup_list] show ?thesis by simp
  qed
qed

text \<open>On the paths that return \<^verbatim>\<open>None\<close> nothing has been done to the file system.\<close>

lemma backup_or_restore_files_None_state:
  assumes "fst (backup_or_restore_files w action backup_path backup_list) = None"
  shows "snd (backup_or_restore_files w action backup_path backup_list) = w"
proof -
  consider "action = ''backup''" | "action = ''restore''" | "action \<noteq> ''backup''" "action \<noteq> ''restore''"
    by blast
  then show ?thesis
  proof cases
    case 1
    with assms backup_branch [of w backup_path backup_list] show ?thesis by simp
  next
    case 2
    with assms restore_branch [of w backup_path backup_list] have "\<not> path_exists w backup_path"
      by simp
    with 2 show ?thesis
      by (simp add: backup_or_restore_files_def)
  next
    case 3
    from other_branch [OF 3, of w backup_path backup_list] show ?thesis by simp
  qed
qed

text \<open>
  A backup of one file into a fresh directory, and the restore that copies it back over
  the emptied original.
\<close>

lemma backup_then_restore_example:
  "backup_or_restore_files
     \<lparr>files = [(''/etc'', Directory), (''/etc/conf'', File ''key=1'')], cwd = ''/'', locked = [], read_only = []\<rparr>
     ''backup'' ''/bak'' [''/etc/conf'']
   = (Some (True, Backup_list [''/etc/conf'']),
      \<lparr>files = [(''/etc'', Directory), (''/etc/conf'', File ''key=1''), (''/bak'', Directory),
                (''/bak/conf'', File ''key=1'')], cwd = ''/'', locked = [], read_only = []\<rparr>)"
  "backup_or_restore_files
     \<lparr>files = [(''/etc'', Directory), (''/etc/conf'', File []), (''/bak'', Directory),
               (''/bak/conf'', File ''key=1'')], cwd = ''/'', locked = [], read_only = []\<rparr>
     ''restore'' ''/bak'' [''/etc/conf'']
   = (Some (True, Backup_path ''/bak''),
      \<lparr>files = [(''/etc'', Directory), (''/etc/conf'', File ''key=1''), (''/bak'', Directory),
                (''/bak/conf'', File ''key=1'')], cwd = ''/bak'', locked = [], read_only = []\<rparr>)"
  "fst (backup_or_restore_files
     \<lparr>files = [(''/etc'', Directory), (''/etc/conf'', File ''key=1'')], cwd = ''/'', locked = [], read_only = []\<rparr>
     ''restore'' ''/bak'' [''/etc/conf'']) = None"
  "fst (backup_or_restore_files
     \<lparr>files = [(''/etc'', Directory)], cwd = ''/'', locked = [], read_only = []\<rparr>
     ''backup'' ''/bak'' [''/etc/conf'']) = Some (False, Caught (OSError ENOENT ''/etc/conf''))"
  by code_simp+

section \<open>Properties of the file splitting\<close>

subsection \<open>Opening and writing a part\<close>

lemma buffered_tail_fits: "n \<le> B \<Longrightarrow> buffered_tail B n = n"
  by (simp add: buffered_tail.simps)

lemma buffered_tail_one_call:
  assumes "B < n" and "n \<le> MAX_RW_COUNT"
  shows "buffered_tail B n = 0"
proof -
  from assms have "buffered_tail B n = buffered_tail B 0"
    by (subst buffered_tail.simps) simp
  then show ?thesis
    by (simp add: buffered_tail.simps)
qed

lemma buffered_tail_le: "buffered_tail B n \<le> n"
proof (induction B n rule: buffered_tail.induct)
  case (1 B n)
  show ?case
  proof (cases "n \<le> B")
    case True
    then show ?thesis by (simp add: buffered_tail.simps)
  next
    case False
    with 1 have "buffered_tail B (n - min n MAX_RW_COUNT) \<le> n - min n MAX_RW_COUNT"
      by simp
    with False show ?thesis
      by (subst buffered_tail.simps) simp
  qed
qed

lemma write_at_file:
  assumes "map_of (files w) k = Some (File c)"
  shows "map_of (files (write_at w k d)) = (map_of (files w))(k \<mapsto> File (c @ d))"
    and "cwd (write_at w k d) = cwd w"
    and "read_only (write_at w k d) = read_only w"
  using assms by (simp_all add: write_at_def update_conv')

text \<open>
  What the file holds after \<^verbatim>\<open>write\<close> and after \<^verbatim>\<open>close\<close>, for a file that was
  opened empty.
\<close>

lemma flush_states:
  assumes "map_of (files w1) k = Some (File [])"
  shows "map_of (files (flushed_by_write B w1 k data))
           = (map_of (files w1))(k \<mapsto> File (take (length data - buffered_tail B (length data)) data))"
    and "cwd (flushed_by_write B w1 k data) = cwd w1"
    and "read_only (flushed_by_write B w1 k data) = read_only w1"
    and "map_of (files (flushed_by_close B (flushed_by_write B w1 k data) k data))
           = (map_of (files w1))(k \<mapsto> File data)"
    and "cwd (flushed_by_close B (flushed_by_write B w1 k data) k data) = cwd w1"
    and "read_only (flushed_by_close B (flushed_by_write B w1 k data) k data) = read_only w1"
proof -
  define t where "t = buffered_tail B (length data)"
  define w2 where "w2 = flushed_by_write B w1 k data"
  have tle: "t \<le> length data"
    unfolding t_def by (rule buffered_tail_le)
  have up: "(map_of (files w1))(k \<mapsto> File []) = map_of (files w1)"
    using assms by (simp add: fun_upd_idem)
  have w2: "map_of (files w2) = (map_of (files w1))(k \<mapsto> File (take (length data - t) data))"
    "cwd w2 = cwd w1" "read_only w2 = read_only w1"
  proof -
    show "map_of (files w2) = (map_of (files w1))(k \<mapsto> File (take (length data - t) data))"
    proof (cases "t = length data")
      case True
      then show ?thesis
        using up by (simp add: w2_def flushed_by_write_def t_def [symmetric])
    next
      case False
      then have "w2 = write_at w1 k (take (length data - t) data)"
        by (simp add: w2_def flushed_by_write_def t_def [symmetric])
      with write_at_file(1) [OF assms] show ?thesis
        by simp
    qed
    show "cwd w2 = cwd w1"
      using write_at_file(2) [OF assms]
      by (simp add: w2_def flushed_by_write_def Let_def)
    show "read_only w2 = read_only w1"
      using write_at_file(3) [OF assms]
      by (simp add: w2_def flushed_by_write_def Let_def)
  qed
  from w2(1) have k2: "map_of (files w2) k = Some (File (take (length data - t) data))"
    by simp
  have w3: "map_of (files (flushed_by_close B w2 k data)) = (map_of (files w1))(k \<mapsto> File data)"
  proof (cases "t = 0")
    case True
    with w2(1) show ?thesis
      by (simp add: flushed_by_close_def t_def [symmetric])
  next
    case False
    then have "flushed_by_close B w2 k data = write_at w2 k (drop (length data - t) data)"
      by (simp add: flushed_by_close_def t_def [symmetric])
    with write_at_file(1) [OF k2] w2(1) show ?thesis
      by simp
  qed
  show "map_of (files (flushed_by_write B w1 k data))
           = (map_of (files w1))(k \<mapsto> File (take (length data - buffered_tail B (length data)) data))"
    using w2(1) by (simp add: w2_def t_def)
  show "cwd (flushed_by_write B w1 k data) = cwd w1"
    using w2(2) by (simp add: w2_def)
  show "read_only (flushed_by_write B w1 k data) = read_only w1"
    using w2(3) by (simp add: w2_def)
  show "map_of (files (flushed_by_close B (flushed_by_write B w1 k data) k data))
           = (map_of (files w1))(k \<mapsto> File data)"
    using w3 by (simp add: w2_def)
  show "cwd (flushed_by_close B (flushed_by_write B w1 k data) k data) = cwd w1"
    using write_at_file(2) [OF k2] w2(2)
    by (simp add: flushed_by_close_def Let_def w2_def [symmetric])
  show "read_only (flushed_by_close B (flushed_by_write B w1 k data) k data) = read_only w1"
    using write_at_file(3) [OF k2] w2(3)
    by (simp add: flushed_by_close_def Let_def w2_def [symmetric])
qed

lemma open_w_plain:
  assumes "lstat w p = None \<or> (\<exists>c. lstat w p = Some (File c))"
    and "may_write w (key w p)"
  shows "open_w w p = Inr (key w p, w\<lparr>files := AList.update (key w p) (File []) (files w)\<rparr>)"
proof -
  from assms(1) consider (missing) "lstat w p = None" | (reg) c where "lstat w p = Some (File c)"
    by auto
  then show ?thesis
  proof cases
    case missing
    then have "resolve w p = Some (key w p)"
      by (intro resolve_no_link) simp
    with missing assms(2) show ?thesis
      by (simp add: open_w_def lstat_def create_entry_def may_write_def)
  next
    case reg
    with assms(2) show ?thesis
      by (simp add: open_w_file may_write_def)
  qed
qed

text \<open>Writing a regular file at a name that held no directory leaves the directories in place.\<close>

lemma may_write_kept:
  assumes "may_write w k"
    and "map_of (files w') = (map_of (files w))(kd \<mapsto> File data)"
    and "map_of (files w) kd \<noteq> Some Directory"
    and "read_only w' = read_only w"
  shows "may_write w' k"
proof -
  from assms(1) have ro: "k \<notin> set (read_only w)" "dirname k \<notin> set (read_only w)"
    and par: "parent_node w k = Some Directory"
    by (simp_all add: may_write_def)
  have "parent_node w' k = Some Directory"
  proof (cases "list_all (\<lambda>c. c = CHR ''/'') (dirname k)")
    case True
    then show ?thesis by (simp add: parent_node_def)
  next
    case False
    with par have "map_of (files w) (dirname k) = Some Directory"
      by (simp add: parent_node_def)
    with assms(3) have "dirname k \<noteq> kd"
      by auto
    with assms(2) False par show ?thesis
      by (simp add: parent_node_def)
  qed
  with ro assms(4) show ?thesis
    by (simp add: may_write_def)
qed

lemma st_size_file:
  assumes "lstat w p = Some (File c)"
  shows "st_size w p = Inr (length c)"
proof -
  from assms have "stat w p = Some (File c)"
    by (simp add: stat_no_link)
  then show ?thesis
    by (simp add: st_size_def)
qed

text \<open>
  One round of the loop in the equal-size mode, on a part name that is free or holds a
  regular file other than the source: the part gets the next \<open>r\<close> bytes of the source, and
  the size that is recorded is the number of bytes that had left the buffer of the writer.
\<close>

lemma split_step:
  assumes free: "lstat w (part_name filename ele) = None \<or> (\<exists>c. lstat w (part_name filename ele) = Some (File c))"
    and perm: "may_write w (key w (part_name filename ele))"
    and other: "key w (part_name filename ele) \<noteq> ks"
    and src: "map_of (files w) ks = Some (File content)"
    and rb: "1048576 * size_mb div split_count = int r"
    and enough: "pos + r \<le> length content"
  shows "\<exists>w3. split_loop rt filename ks size_mb split_count False w pos (ele # rest)
              = (case split_loop rt filename ks size_mb split_count False w3 (pos + r) rest of
                   (Inl e, w') \<Rightarrow> (Inl e, w')
                 | (Inr parts, w') \<Rightarrow>
                     (Inr (\<lparr>Output = part_name filename ele,
                            Size = r - buffered_tail (buffer_size rt) r\<rparr> # parts), w'))
            \<and> cwd w3 = cwd w
            \<and> read_only w3 = read_only w
            \<and> map_of (files w3) = (map_of (files w))(key w (part_name filename ele) \<mapsto> File (take r (drop pos content)))"
proof -
  define fop where "fop = part_name filename ele"
  define kd where "kd = key w fop"
  define B where "B = buffer_size rt"
  define data where "data = take r (drop pos content)"
  define w1 where "w1 = w\<lparr>files := AList.update kd (File []) (files w)\<rparr>"
  define w2 where "w2 = flushed_by_write B w1 kd data"
  define w3 where "w3 = flushed_by_close B w2 kd data"
  have pb: "part_bytes rt size_mb split_count False ele = Inr (int r)"
    using rb by (simp add: part_bytes_def)
  have ow: "open_w w fop = Inr (kd, w1)"
    unfolding kd_def w1_def fop_def using free perm by (rule open_w_plain)
  have m1: "map_of (files w1) = (map_of (files w))(kd \<mapsto> File [])" and cw1: "cwd w1 = cwd w"
    and ro1: "read_only w1 = read_only w"
    by (simp_all add: w1_def update_conv')
  have c1: "content_at w1 ks = content"
    using other src m1 by (simp add: content_at_def kd_def fop_def)
  have len: "length data = r"
    using enough by (simp add: data_def)
  have fr: "file_read (int r) (drop pos (content_at w1 ks)) = Inr data"
    by (simp add: file_read_def c1 data_def)
  have k1: "map_of (files w1) kd = Some (File [])"
    by (simp add: m1)
  note fl = flush_states [OF k1, of B data, folded w2_def w3_def]
  have "lstat w2 fop = Some (File (take (r - buffered_tail B r) data))"
    using fl(1,2) cw1 len by (simp add: lstat_def key_def kd_def)
  then have "st_size w2 fop = Inr (length (take (r - buffered_tail B r) data))"
    by (rule st_size_file)
  with len have ss: "st_size w2 fop = Inr (r - buffered_tail B r)"
    by simp
  have m3: "map_of (files w3) = (map_of (files w))(kd \<mapsto> File data)"
    using fl(4) m1 by simp
  have cw3: "cwd w3 = cwd w"
    using fl(5) cw1 by simp
  have ro3: "read_only w3 = read_only w"
    using fl(6) ro1 by simp
  have "split_loop rt filename ks size_mb split_count False w pos (ele # rest)
      = (case split_loop rt filename ks size_mb split_count False w3 (pos + r) rest of
           (Inl e, w') \<Rightarrow> (Inl e, w')
         | (Inr parts, w') \<Rightarrow>
             (Inr (\<lparr>Output = fop, Size = r - buffered_tail B r\<rparr> # parts), w'))"
    apply (subst split_loop.simps)
    apply (fold fop_def)
    apply (simp only: Let_def pb sum.case ow prod.case fr)
    apply (fold B_def)
    apply (fold w2_def)
    apply (fold w3_def)
    apply (simp only: ss sum.case len)
    done
  with m3 cw3 ro3 show ?thesis
    unfolding fop_def kd_def B_def data_def by blast
qed

text \<open>
  The loop in the equal-size mode, when the source still holds \<open>r\<close> bytes for each part
  to come, every part name may be written, and no part name stands for the source, a
  directory, a link or a special file: every part gets \<open>r\<close> bytes on disk, in the order of
  the loop, and every record carries the size seen before the part was closed.
\<close>

lemma split_loop_equal:
  assumes rb: "1048576 * size_mb div split_count = int r"
    and src: "map_of (files w) ks = Some (File content)"
    and enough: "pos + length eles * r \<le> length content"
    and clean: "\<forall>ele \<in> set eles. key w (part_name filename ele) \<noteq> ks
                  \<and> may_write w (key w (part_name filename ele))
                  \<and> (lstat w (part_name filename ele) = None
                      \<or> (\<exists>c. lstat w (part_name filename ele) = Some (File c)))"
  shows "\<exists>w'. split_loop rt filename ks size_mb split_count False w pos eles
              = (Inr (map (\<lambda>ele. \<lparr>Output = part_name filename ele,
                                   Size = r - buffered_tail (buffer_size rt) r\<rparr>) eles), w')
            \<and> cwd w' = cwd w
            \<and> read_only w' = read_only w
            \<and> map_of (files w') ks = Some (File content)
            \<and> (\<forall>ele \<in> set eles. \<exists>c. lstat w' (part_name filename ele) = Some (File c) \<and> length c = r)
            \<and> (\<forall>q. map_of (files w') q = map_of (files w) q
                     \<or> (\<exists>c. map_of (files w') q = Some (File c) \<and> length c = r))"
  using src enough clean
proof (induction eles arbitrary: w pos)
  case Nil
  then show ?case by simp
next
  case (Cons ele rest)
  let ?pn = "part_name filename"
  let ?kd = "key w (?pn ele)"
  let ?data = "take r (drop pos content)"
  let ?rec = "\<lambda>ele. \<lparr>Output = ?pn ele, Size = r - buffered_tail (buffer_size rt) r\<rparr>"
  from Cons.prems(3) have free: "lstat w (?pn ele) = None \<or> (\<exists>c. lstat w (?pn ele) = Some (File c))"
    and perm: "may_write w ?kd"
    and other: "?kd \<noteq> ks"
    by simp_all
  from free have nodir: "map_of (files w) ?kd \<noteq> Some Directory"
    by (auto simp: lstat_def)
  from Cons.prems(2) have enough1: "pos + r \<le> length content"
    and enough3: "(pos + r) + length rest * r \<le> length content"
    by simp_all
  from split_step [OF free perm other Cons.prems(1) rb enough1, of rt rest]
  obtain w3 where step: "split_loop rt filename ks size_mb split_count False w pos (ele # rest)
        = (case split_loop rt filename ks size_mb split_count False w3 (pos + r) rest of
             (Inl e, w') \<Rightarrow> (Inl e, w')
           | (Inr parts, w') \<Rightarrow> (Inr (?rec ele # parts), w'))"
    and cw3: "cwd w3 = cwd w"
    and ro3: "read_only w3 = read_only w"
    and m3: "map_of (files w3) = (map_of (files w))(?kd \<mapsto> File ?data)"
    by blast
  have len: "length ?data = r"
    using enough1 by simp
  have k3: "key w3 p = key w p" for p
    using cw3 by (simp add: key_def)
  have src3: "map_of (files w3) ks = Some (File content)"
    using m3 other Cons.prems(1) by simp
  have clean3: "\<forall>e \<in> set rest. key w3 (?pn e) \<noteq> ks
                  \<and> may_write w3 (key w3 (?pn e))
                  \<and> (lstat w3 (?pn e) = None \<or> (\<exists>c. lstat w3 (?pn e) = Some (File c)))"
  proof
    fix e assume e: "e \<in> set rest"
    with Cons.prems(3) have a: "key w (?pn e) \<noteq> ks"
      and p: "may_write w (key w (?pn e))"
      and b: "lstat w (?pn e) = None \<or> (\<exists>c. lstat w (?pn e) = Some (File c))"
      by simp_all
    have "lstat w3 (?pn e) = (if key w (?pn e) = ?kd then Some (File ?data) else lstat w (?pn e))"
      using m3 by (simp add: lstat_def k3)
    moreover from p m3 nodir ro3 have "may_write w3 (key w (?pn e))"
      by (rule may_write_kept)
    ultimately show "key w3 (?pn e) \<noteq> ks
        \<and> may_write w3 (key w3 (?pn e))
        \<and> (lstat w3 (?pn e) = None \<or> (\<exists>c. lstat w3 (?pn e) = Some (File c)))"
      using a b by (auto simp: k3)
  qed
  from Cons.IH [OF src3 enough3 clean3]
  obtain w' where res: "split_loop rt filename ks size_mb split_count False w3 (pos + r) rest
        = (Inr (map ?rec rest), w')"
    and cw': "cwd w' = cwd w3"
    and ro': "read_only w' = read_only w3"
    and src': "map_of (files w') ks = Some (File content)"
    and parts': "\<forall>e \<in> set rest. \<exists>c. lstat w' (?pn e) = Some (File c) \<and> length c = r"
    and rest': "\<forall>q. map_of (files w') q = map_of (files w3) q
                     \<or> (\<exists>c. map_of (files w') q = Some (File c) \<and> length c = r)"
    by blast
  have k': "key w' p = key w p" for p
    using cw' cw3 by (simp add: key_def)
  have all: "map_of (files w') q = map_of (files w) q
              \<or> (\<exists>c. map_of (files w') q = Some (File c) \<and> length c = r)" for q
  proof (cases "q = ?kd")
    case True
    with m3 have "map_of (files w3) q = Some (File ?data)" by simp
    with rest' len show ?thesis by metis
  next
    case False
    with m3 have "map_of (files w3) q = map_of (files w) q" by simp
    with rest' show ?thesis by metis
  qed
  have this_part: "\<exists>c. lstat w' (?pn ele) = Some (File c) \<and> length c = r"
  proof -
    from m3 have "map_of (files w3) ?kd = Some (File ?data)" by simp
    with rest' len have "\<exists>c. map_of (files w') ?kd = Some (File c) \<and> length c = r" by metis
    then show ?thesis by (simp add: lstat_def k')
  qed
  have "split_loop rt filename ks size_mb split_count False w pos (ele # rest)
      = (Inr (map ?rec (ele # rest)), w')"
    by (simp only: step res prod.case sum.case list.map)
  moreover have "cwd w' = cwd w"
    using cw' cw3 by simp
  moreover have "read_only w' = read_only w"
    using ro' ro3 by simp
  moreover have "\<forall>e \<in> set (ele # rest). \<exists>c. lstat w' (?pn e) = Some (File c) \<and> length c = r"
    using this_part parts' by simp
  ultimately show ?case
    using src' all by blast
qed

subsection \<open>\<^verbatim>\<open>split_file\<close> in the equal-size mode\<close>

lemma open_r_file:
  assumes "lstat w p = Some (File c)"
  shows "open_r w p = Inr (key w p)"
proof -
  from assms have "resolve w p = Some (key w p)"
    by (simp add: resolve_no_link)
  with assms show ?thesis
    by (simp add: open_r_def lstat_def)
qed

lemma parts_fit:
  assumes "0 \<le> x" and "0 < n"
  shows "nat n * nat (x div n) \<le> nat x"
    and "nat n * nat (x div n) = nat x - nat (x mod n)"
proof -
  from assms have d: "0 \<le> x div n" by (simp add: pos_imp_zdiv_nonneg_iff)
  from assms have m: "0 \<le> x mod n" "x mod n \<le> x"
    by (simp_all add: zmod_le_nonneg_dividend)
  have "n * (x div n) = x - x mod n"
    by (simp add: minus_mod_eq_mult_div)
  moreover have "nat n * nat (x div n) = nat (n * (x div n))"
    using assms d by (simp add: nat_mult_distrib)
  ultimately show "nat n * nat (x div n) = nat x - nat (x mod n)"
    using m assms by (simp add: nat_diff_distrib)
  then show "nat n * nat (x div n) \<le> nat x"
    by simp
qed

text \<open>
  When the shell command has created a regular file of \<open>size_mb\<close> mebibytes, every part
  name may be written, and no part name stands for the source, a directory, a link or a
  special file, then \<^verbatim>\<open>split_file\<close> with equal-size parts returns one record for each of the
  \<open>split_count\<close> parts, in order; each part holds \<open>r\<close> bytes on disk, \<open>r\<close> the size in
  bytes divided by the number of parts and rounded down; and each record carries the number
  of these bytes that had left the buffer of the writer when the part was measured.
\<close>

lemma split_file_equal:
  assumes created: "create_file rt (if path_exists w filename then snd (remove_file w filename) else w)
                      filename size_mb ''/dev/zero'' ''1M'' = (Inr out, w2)"
    and isfile2: "lstat w2 filename = Some (File content)"
    and len: "length content = nat (1048576 * size_mb)"
    and nonneg: "0 \<le> size_mb"
    and parts: "0 < split_count"
    and clean: "\<forall>ele \<in> set [0..<nat split_count].
                  key w2 (part_name filename ele) \<noteq> key w2 filename
                  \<and> may_write w2 (key w2 (part_name filename ele))
                  \<and> (lstat w2 (part_name filename ele) = None
                      \<or> (\<exists>c. lstat w2 (part_name filename ele) = Some (File c)))"
  shows "\<exists>w'. split_file rt w filename size_mb split_count False
              = (Inr (map (\<lambda>ele. \<lparr>Output = part_name filename ele,
                                   Size = nat (1048576 * size_mb div split_count)
                                          - buffered_tail (buffer_size rt)
                                              (nat (1048576 * size_mb div split_count))\<rparr>)
                          [0..<nat split_count]), w')
            \<and> (\<forall>ele \<in> set [0..<nat split_count].
                   \<exists>c. lstat w' (part_name filename ele) = Some (File c)
                       \<and> length c = nat (1048576 * size_mb div split_count))"
proof -
  let ?r = "nat (1048576 * size_mb div split_count)"
  let ?ks = "key w2 filename"
  from nonneg parts have rb: "1048576 * size_mb div split_count = int ?r"
    by (simp add: pos_imp_zdiv_nonneg_iff)
  from isfile2 have src: "map_of (files w2) ?ks = Some (File content)"
    by (simp add: lstat_def)
  have "nat split_count * ?r \<le> nat (1048576 * size_mb)"
    using nonneg parts by (intro parts_fit(1)) simp_all
  with len have enough: "0 + length [0..<nat split_count] * ?r \<le> length content"
    by simp
  from split_loop_equal [OF rb src enough clean, of rt]
  obtain w' where loop: "split_loop rt filename ?ks size_mb split_count False w2 0 [0..<nat split_count]
        = (Inr (map (\<lambda>ele. \<lparr>Output = part_name filename ele,
                             Size = ?r - buffered_tail (buffer_size rt) ?r\<rparr>) [0..<nat split_count]), w')"
    and disk: "\<forall>ele \<in> set [0..<nat split_count].
                 \<exists>c. lstat w' (part_name filename ele) = Some (File c) \<and> length c = ?r"
    by blast
  have "split_file rt w filename size_mb split_count False
      = split_loop rt filename ?ks size_mb split_count False w2 0 [0..<nat split_count]"
    by (simp only: split_file_def Let_def created prod.case sum.case open_r_file [OF isfile2])
  with loop disk show ?thesis
    by (simp only:) blast
qed

text \<open>
  With parts that exceed the buffer of the writer and that the operating system takes in
  one call, the sizes in the records are the sizes of the parts, and they add up to the
  size of the source less the remainder of the division.
\<close>

lemma split_file_large_parts:
  assumes "create_file rt (if path_exists w filename then snd (remove_file w filename) else w)
                      filename size_mb ''/dev/zero'' ''1M'' = (Inr out, w2)"
    and "lstat w2 filename = Some (File content)"
    and "length content = nat (1048576 * size_mb)"
    and nonneg: "0 \<le> size_mb"
    and parts: "0 < split_count"
    and "\<forall>ele \<in> set [0..<nat split_count].
                  key w2 (part_name filename ele) \<noteq> key w2 filename
                  \<and> may_write w2 (key w2 (part_name filename ele))
                  \<and> (lstat w2 (part_name filename ele) = None
                      \<or> (\<exists>c. lstat w2 (part_name filename ele) = Some (File c)))"
    and big: "buffer_size rt < nat (1048576 * size_mb div split_count)"
    and one_call: "nat (1048576 * size_mb div split_count) \<le> MAX_RW_COUNT"
  shows "\<exists>ps w'. split_file rt w filename size_mb split_count False = (Inr ps, w')
            \<and> length ps = nat split_count
            \<and> sum_list (map Size ps) = nat (1048576 * size_mb) - nat (1048576 * size_mb mod split_count)"
proof -
  let ?r = "nat (1048576 * size_mb div split_count)"
  let ?ps = "map (\<lambda>ele. \<lparr>Output = part_name filename ele, Size = ?r\<rparr>) [0..<nat split_count]"
  have t: "buffered_tail (buffer_size rt) ?r = 0"
    using big one_call by (rule buffered_tail_one_call)
  from split_file_equal [OF assms(1-6)]
  obtain w' where res: "split_file rt w filename size_mb split_count False = (Inr ?ps, w')"
    by (auto simp: t)
  have "map Size ?ps = map (\<lambda>ele. ?r) [0..<nat split_count]"
    by simp
  then have "sum_list (map Size ?ps) = nat split_count * ?r"
    by (simp only: sum_list_triv) simp
  also have "\<dots> = nat (1048576 * size_mb) - nat (1048576 * size_mb mod split_count)"
    using nonneg parts by (intro parts_fit(2)) simp_all
  finally have "sum_list (map Size ?ps)
      = nat (1048576 * size_mb) - nat (1048576 * size_mb mod split_count)" .
  moreover have "length ?ps = nat split_count"
    by simp
  ultimately show ?thesis
    using res by blast
qed

subsection \<open>Parts that fit in the buffer of the writer\<close>

lemma digit_no_slash:
  assumes "0 \<le> d" and "d < 10"
  shows "char_of (48 + d :: int) \<noteq> CHR ''/''"
proof
  assume "char_of (48 + d) = CHR ''/''"
  then have "(of_char (char_of (48 + d)) :: int) = of_char CHR ''/''"
    by simp
  then have "(48 + d) mod 256 = 47"
    by simp
  with assms show False
    by simp
qed

lemma digits_no_slash: "0 \<le> n \<Longrightarrow> CHR ''/'' \<notin> set (digits n)"
proof (induction n rule: digits.induct)
  case (1 n)
  show ?case
  proof (cases "n < 10")
    case True
    with "1.prems" digit_no_slash [of n] show ?thesis
      by (subst digits.simps) auto
  next
    case False
    with "1.prems" "1.IH" have "CHR ''/'' \<notin> set (digits (n div 10))"
      by simp
    moreover have "char_of (48 + n mod 10) \<noteq> CHR ''/''"
      by (rule digit_no_slash) simp_all
    ultimately show ?thesis
      using False by (subst digits.simps) auto
  qed
qed

lemma dirname_tail:
  assumes "CHR ''/'' \<notin> set s"
  shows "dirname (p @ s) = dirname p"
proof -
  from assms have "dropWhile (\<lambda>c. c \<noteq> CHR ''/'') (rev s @ rev p) = dropWhile (\<lambda>c. c \<noteq> CHR ''/'') (rev p)"
    by (intro dropWhile_append2) auto
  then show ?thesis
    by (simp add: dirname_def)
qed

lemma data_bin_names:
  "dirname ''/tmp/data.bin'' = ''/tmp''"
  "basename ''/tmp/data.bin'' = ''data.bin''"
  "dirname ''/tmp/data.bin_out'' = ''/tmp''"
  "CREATE_FILE dd_runtime ''/dev/zero'' ''/tmp/data.bin'' ''1M'' 1
     = ''dd if=/dev/zero of=/tmp/data.bin bs=1M count=1 status=none''"
  "\<not> path_exists tmp_world ''/tmp/data.bin''"
  by code_simp+

lemma data_bin_part: "part_name ''/tmp/data.bin'' ele = ''/tmp/data.bin_out'' @ str_int (int ele)"
  by (simp add: part_name_def data_bin_names)

lemma data_bin_part_dir: "dirname (''/tmp/data.bin_out'' @ str_int (int ele)) = ''/tmp''"
proof -
  have "CHR ''/'' \<notin> set (str_int (int ele))"
    by (simp add: str_int_def digits_no_slash)
  then have "dirname (''/tmp/data.bin_out'' @ str_int (int ele)) = dirname ''/tmp/data.bin_out''"
    by (rule dirname_tail)
  then show ?thesis
    by (simp only: data_bin_names)
qed

lemma key_absolute: "key w (CHR ''/'' # p) = CHR ''/'' # p"
  by (simp add: key_def path_join_def is_abs_def)

text \<open>
  Claim C5, evaluated on the code. One mebibyte split into 256 equal parts: each part is
  read as 4096 bytes and holds 4096 bytes on disk once \<^verbatim>\<open>split_file\<close> has returned, 1048576
  bytes in all; but 4096 bytes fit in the buffer of the writer, \<^verbatim>\<open>os.stat\<close> is called
  before the part is closed, and every record that is returned carries the size 0.
\<close>

theorem split_file_records_unflushed_size:
  "fst (split_file dd_runtime tmp_world ''/tmp/data.bin'' 1 256 False)
     = Inr (map (\<lambda>ele. \<lparr>Output = ''/tmp/data.bin_out'' @ str_int (int ele), Size = 0\<rparr>) [0..<256])
   \<and> sum_list (map (\<lambda>ele. length (content_at
                   (snd (split_file dd_runtime tmp_world ''/tmp/data.bin'' 1 256 False))
                   (''/tmp/data.bin_out'' @ str_int (int ele)))) [0..<256]) = 1048576"
proof -
  let ?f = "''/tmp/data.bin''"
  let ?content = "replicate 1048576 (CHR 0x00)"
  define w2 where "w2 = tmp_world\<lparr>files := AList.update ?f (File ?content) (files tmp_world)\<rparr>"
  have sh: "shell dd_runtime ''dd if=/dev/zero of=/tmp/data.bin bs=1M count=1 status=none'' tmp_world
      = (([], []), w2)"
    by (simp add: dd_runtime_def w2_def)
  have created: "create_file dd_runtime (if path_exists tmp_world ?f then snd (remove_file tmp_world ?f) else tmp_world)
      ?f 1 ''/dev/zero'' ''1M'' = (Inr [], w2)"
    by (simp add: create_file_def run_local_cmd_def data_bin_names sh key_added_def
        unix_not_found_def windows_not_found_def)
  have m2: "map_of (files w2) q
      = (if q = ?f then Some (File ?content) else if q = ''/tmp'' then Some Directory else None)" for q
    by (simp add: w2_def tmp_world_def update_conv')
  have ro2: "read_only w2 = []"
    by (simp add: w2_def tmp_world_def)
  have isfile2: "lstat w2 ?f = Some (File ?content)"
    by (simp add: lstat_def key_absolute m2)
  have len: "length ?content = nat (1048576 * 1)"
    by simp
  have kp: "key w2 (part_name ?f ele) = part_name ?f ele" for ele
    by (simp add: data_bin_part key_absolute)
  have "parent_node w2 (part_name ?f ele) = Some Directory" for ele
    unfolding parent_node_def data_bin_part data_bin_part_dir by (simp add: m2)
  then have writable: "may_write w2 (key w2 (part_name ?f ele))" for ele
    unfolding kp may_write_def ro2 by simp
  have other: "key w2 (part_name ?f ele) \<noteq> key w2 ?f" for ele
    by (simp add: data_bin_part key_absolute)
  have free: "lstat w2 (part_name ?f ele) = None" for ele
    by (simp add: data_bin_part lstat_def key_absolute m2)
  have clean: "\<forall>ele \<in> set [0..<nat 256].
      key w2 (part_name ?f ele) \<noteq> key w2 ?f
      \<and> may_write w2 (key w2 (part_name ?f ele))
      \<and> (lstat w2 (part_name ?f ele) = None \<or> (\<exists>c. lstat w2 (part_name ?f ele) = Some (File c)))"
    using writable other free by blast
  have bs: "buffer_size dd_runtime = 8192"
    by (simp add: dd_runtime_def)
  have tail: "buffered_tail (buffer_size dd_runtime) 4096 = 4096"
    by (simp add: bs buffered_tail_fits)
  from split_file_equal [OF created isfile2 len _ _ clean]
  obtain w' where res: "split_file dd_runtime tmp_world ?f 1 256 False
        = (Inr (map (\<lambda>ele. \<lparr>Output = part_name ?f ele,
                             Size = nat (1048576 * 1 div 256)
                                    - buffered_tail (buffer_size dd_runtime) (nat (1048576 * 1 div 256))\<rparr>)
                    [0..<nat 256]), w')"
    and disk: "\<forall>ele \<in> set [0..<nat 256].
        \<exists>c. lstat w' (part_name ?f ele) = Some (File c) \<and> length c = nat (1048576 * 1 div 256)"
    by auto
  from res have r1: "fst (split_file dd_runtime tmp_world ?f 1 256 False)
      = Inr (map (\<lambda>ele. \<lparr>Output = ''/tmp/data.bin_out'' @ str_int (int ele), Size = 0\<rparr>) [0..<256])"
    by (simp add: tail data_bin_part)
  have "length (content_at w' (''/tmp/data.bin_out'' @ str_int (int ele))) = 4096"
    if "ele \<in> set [0..<256]" for ele
  proof -
    from that have "ele \<in> set [0..<nat 256]" by simp
    from bspec [OF disk this]
    have "\<exists>c. lstat w' (part_name ?f ele) = Some (File c) \<and> length c = nat (1048576 * 1 div 256)" .
    then obtain c where "lstat w' (part_name ?f ele) = Some (File c)" "length c = 4096"
      by auto
    then show ?thesis
      by (simp add: data_bin_part lstat_def key_absolute content_at_def)
  qed
  then have eq: "map (\<lambda>ele. length (content_at w' (''/tmp/data.bin_out'' @ str_int (int ele)))) [0..<256]
      = map (\<lambda>ele. 4096) [0..<256]"
    by (intro map_cong) auto
  have "sum_list (map (\<lambda>ele. 4096 :: nat) [0..<256]) = 1048576"
    by (simp add: sum_list_triv)
  then have "sum_list (map (\<lambda>ele. length (content_at w' (''/tmp/data.bin_out'' @ str_int (int ele)))) [0..<256])
      = 1048576"
    by (simp only: eq)
  with r1 res show ?thesis
    by simp
qed

end
